theory Spec2Isabelle
  imports Complex_Main "HOL-Library.Word" "HOL-Library.Log_Nat"
begin

section \<open>Conventions of the embedding\<close>

text \<open>
  The repository holds three implementations of the same network: a TypeScript mock of
  the public ledger (\<^verbatim>\<open>mock-solana/src/index.ts\<close>), a TypeScript bridge
  (\<^verbatim>\<open>bridge/corda-bridge.ts\<close>) with a TypeScript mock of the permissioned ledger, and
  the Kotlin application of the permissioned ledger (contracts, flows and services).

  A TypeScript \<^verbatim>\<open>number\<close> and a Kotlin \<^verbatim>\<open>Double\<close> are modelled as \<^typ>\<open>real\<close>:
  arithmetic is exact, and where the source divides by a quantity that may be zero the
  non-finite results are kept apart (type \<open>xdouble\<close> below). Exact arithmetic can differ
  from the code in the last place of a result, and, behind \<^verbatim>\<open>Math.floor\<close>,
  \<^verbatim>\<open>Math.round\<close> or a strict comparison, by a whole step. Where a theorem depends on such
  a step the computation is done in IEEE 754 binary64, every literal and every operation
  rounded (\<open>binary64\<close> below): the reward sample (\<open>calculateReward64\<close>), the revenue of
  an agreement, and the averages and the coverage density that the recommendation rules
  compare with their thresholds. A Kotlin \<^verbatim>\<open>Int\<close> is a
  \<^typ>\<open>32 word\<close> and a \<^verbatim>\<open>Long\<close> a \<^typ>\<open>64 word\<close>, read as signed values.
  Every read of the wall clock (\<^verbatim>\<open>Date.now()\<close>, \<^verbatim>\<open>Instant.now()\<close>) is an explicit
  argument of the function that reads it. An exception is a value \<open>Inl e\<close>; a function
  that mutates returns the state after the call also when it fails, so that
  "nothing was mutated" is a statement about that state.
\<close>

datatype error =
    NotFound string
  | InactiveDevice string
  | InvalidState string
  | MigrationFailure string
  | ContractViolation string
  | ArithmeticFailure string

section \<open>The telemetry reward engine (mock-solana/src/index.ts)\<close>

record geo =
  latitude :: real
  longitude :: real
  accuracy :: real

datatype deviceType = Smartphone | Router | IoTDevice | Hotspot

record Device =
  dev_id :: string
  dev_owner :: string
  dev_deviceType :: deviceType
  dev_location :: geo
  dev_isActive :: bool
  totalUptime :: real
  totalRewardsEarned :: real
  lastActivity :: real

record NetworkData =
  signalStrength :: real
  latency :: real
  throughput :: real
  availability :: real
  nd_location :: geo

record ProgramState =
  totalDevices :: real
  totalRewardsDistributed :: real
  ps_isActive :: bool

text \<open>The events the program emits; a call returns the list it emitted, in order.\<close>

datatype event =
    DeviceRegistered Device
  | DataSubmitted string NetworkData real
  | DeviceUpdated Device
  | DeviceStatusChanged Device

record MockSolanaProgram =
  devices :: "string \<rightharpoonup> Device"
  programState :: ProgramState
  rewardVault :: real

definition initialProgram :: MockSolanaProgram where
  "initialProgram =
     \<lparr>devices = Map.empty,
      programState = \<lparr>totalDevices = 0, totalRewardsDistributed = 0, ps_isActive = True\<rparr>,
      rewardVault = 1000000000\<rparr>"

text \<open>\<^verbatim>\<open>Math.floor\<close> on a finite number.\<close>

definition Math_floor :: "real \<Rightarrow> real" where
  "Math_floor x = of_int \<lfloor>x\<rfloor>"

definition calculateReward :: "NetworkData \<Rightarrow> real \<Rightarrow> real" where
  "calculateReward qualityData uptime =
     (let baseReward = 1000;
          signalMultiplier =
            (if signalStrength qualityData > - 70 then 1.5
             else if signalStrength qualityData > - 80 then 0.8 else 0.3);
          latencyMultiplier =
            (if latency qualityData < 50 then 1.2
             else if latency qualityData < 100 then 1.0 else 0.6);
          throughputMultiplier =
            (if throughput qualityData > 1000000 then 1.3
             else if throughput qualityData > 500000 then 1.0 else 0.7);
          availabilityMultiplier = availability qualityData;
          uptimeBonus = 1.0 + (uptime / 1000) * 0.5;
          totalMultiplier =
            signalMultiplier * latencyMultiplier * throughputMultiplier *
            availabilityMultiplier * uptimeBonus
      in Math_floor (baseReward * totalMultiplier))"

subsection \<open>Binary64 arithmetic and the reward in it\<close>

text \<open>
  A finite double is the real number it denotes. \<open>binary64 x\<close> is the double nearest to
  \<open>x\<close>, ties to the even significand: with \<open>2 ^ e \<le> \<bar>x\<bar> < 2 ^ (e + 1)\<close> the significand
  is \<open>\<bar>x\<bar> / 2 ^ (e - 52)\<close> rounded to an integer. \<open>ilog2 x\<close> is that \<open>e\<close>, read off the
  bit length of \<open>\<lfloor>x\<rfloor>\<close> for \<open>x \<ge> 1\<close> and of \<open>\<lceil>1 / x\<rceil> - 1\<close> below 1. The exponent range is
  not bounded here; no quantity below comes near the overflow or the subnormal threshold.
\<close>

definition pow2 :: "int \<Rightarrow> real" where
  "pow2 e = (if e \<ge> 0 then 2 ^ nat e else 1 / 2 ^ nat (- e))"

definition ilog2 :: "real \<Rightarrow> int" where
  "ilog2 x = (if x \<ge> 1 then bitlen \<lfloor>x\<rfloor> - 1 else - bitlen (\<lceil>1 / x\<rceil> - 1))"

definition roundHalfEven :: "real \<Rightarrow> int" where
  "roundHalfEven x =
     (let f = \<lfloor>x\<rfloor>; d = x - of_int f
      in if d < 1 / 2 then f else if d > 1 / 2 then f + 1 else if even f then f else f + 1)"

definition binary64 :: "real \<Rightarrow> real" where
  "binary64 x =
     (if x = 0 then 0
      else let e = ilog2 \<bar>x\<bar> - 52
           in sgn x * of_int (roundHalfEven (\<bar>x\<bar> / pow2 e)) * pow2 e)"

text \<open>
  \<^verbatim>\<open>calculateReward\<close> once more, on doubles: each decimal literal is the double nearest to
  it and each operation rounds its exact result. The product is taken from the left, as
  the source writes it. Off the sample of claim C1 the two can differ by one token: for
  signal \<open>-65\<close>, latency 45, throughput 750000 and availability 0.5 the exact product is
  900 and the rounded one is just below it.
\<close>

definition calculateReward64 :: "real \<Rightarrow> real \<Rightarrow> real \<Rightarrow> real \<Rightarrow> real \<Rightarrow> real" where
  "calculateReward64 signal lat thr avail uptime =
     (let baseReward = 1000;
          signalMultiplier =
            (if signal > - 70 then binary64 1.5
             else if signal > - 80 then binary64 0.8 else binary64 0.3);
          latencyMultiplier =
            (if lat < 50 then binary64 1.2
             else if lat < 100 then binary64 1.0 else binary64 0.6);
          throughputMultiplier =
            (if thr > 1000000 then binary64 1.3
             else if thr > 500000 then binary64 1.0 else binary64 0.7);
          availabilityMultiplier = avail;
          uptimeBonus =
            binary64 (binary64 1.0 + binary64 (binary64 (uptime / 1000) * binary64 0.5));
          totalMultiplier =
            binary64 (binary64 (binary64 (binary64
              (signalMultiplier * latencyMultiplier) * throughputMultiplier) *
              availabilityMultiplier) * uptimeBonus)
      in of_int \<lfloor>binary64 (baseReward * totalMultiplier)\<rfloor>)"

text \<open>
  \<^verbatim>\<open>registerDevice\<close> builds a new device object and stores it with \<^verbatim>\<open>Map.set\<close>,
  whatever the map held under that id; it has no failing path.
\<close>

definition registerDevice ::
  "real \<Rightarrow> string \<Rightarrow> deviceType \<Rightarrow> geo \<Rightarrow> string \<Rightarrow> MockSolanaProgram
     \<Rightarrow> string \<times> MockSolanaProgram \<times> event list" where
  "registerDevice now deviceId devType loc own s =
     (let device =
            \<lparr>dev_id = deviceId, dev_owner = own, dev_deviceType = devType,
             dev_location = loc, dev_isActive = True, totalUptime = 0,
             totalRewardsEarned = 0, lastActivity = now\<rparr>;
          ps = programState s
      in (''mock_tx_register_device_123'',
          s\<lparr>devices := (devices s)(deviceId \<mapsto> device),
            programState := ps\<lparr>totalDevices := totalDevices ps + 1\<rparr>\<rparr>,
          [DeviceRegistered device]))"

text \<open>
  \<^verbatim>\<open>submitData\<close> throws before it touches anything when the device is unknown or
  inactive. Otherwise it computes the reward from the uptime the device has at that
  moment, then updates the device object in place and the two global counters.
\<close>

definition submitData ::
  "real \<Rightarrow> string \<Rightarrow> NetworkData \<Rightarrow> MockSolanaProgram
     \<Rightarrow> (error + string) \<times> MockSolanaProgram \<times> event list" where
  "submitData now deviceId qualityData s =
     (case devices s deviceId of
        None \<Rightarrow> (Inl (NotFound ''Device not found''), s, [])
      | Some device \<Rightarrow>
          if \<not> dev_isActive device
          then (Inl (InactiveDevice ''Device is not active''), s, [])
          else
            let rewardAmount = calculateReward qualityData (totalUptime device);
                device' = device
                  \<lparr>totalUptime := totalUptime device + 1,
                   totalRewardsEarned := totalRewardsEarned device + rewardAmount,
                   lastActivity := now,
                   dev_location := nd_location qualityData\<rparr>;
                ps = programState s
            in (Inr ''mock_tx_submit_data_123'',
                s\<lparr>devices := (devices s)(deviceId \<mapsto> device'),
                  programState := ps
                    \<lparr>totalRewardsDistributed := totalRewardsDistributed ps + rewardAmount\<rparr>,
                  rewardVault := rewardVault s - rewardAmount\<rparr>,
                [DataSubmitted deviceId qualityData rewardAmount, DeviceUpdated device']))"

definition toggleDeviceStatus ::
  "real \<Rightarrow> string \<Rightarrow> MockSolanaProgram
     \<Rightarrow> (error + string) \<times> MockSolanaProgram \<times> event list" where
  "toggleDeviceStatus now deviceId s =
     (case devices s deviceId of
        None \<Rightarrow> (Inl (NotFound ''Device not found''), s, [])
      | Some device \<Rightarrow>
          let device' = device\<lparr>dev_isActive := \<not> dev_isActive device, lastActivity := now\<rparr>
          in (Inr ''mock_tx_toggle_status_123'',
              s\<lparr>devices := (devices s)(deviceId \<mapsto> device')\<rparr>,
              [DeviceStatusChanged device']))"

section \<open>The aggregation and anonymization bridge (bridge/corda-bridge.ts)\<close>

record DataSubmission =
  sub_device :: string
  sub_timestamp :: real
  sub_signalStrength :: real
  sub_latency :: real
  sub_throughput :: real
  sub_availability :: real
  sub_location :: geo

record bridgeRegion =
  br_latitude :: real
  br_longitude :: real
  br_radius :: real

record AggregatedNetworkData =
  agg_region :: bridgeRegion
  agg_averageSignalStrength :: real
  agg_averageLatency :: real
  agg_averageThroughput :: real
  agg_averageAvailability :: real
  agg_deviceCount :: real
  agg_dataPoints :: real
  agg_timestamp :: real

text \<open>
  \<^verbatim>\<open>Math.round\<close> rounds to the nearest integer, a half towards plus infinity;
  \<^verbatim>\<open>Math.atan2\<close> is the angle of the point \<open>(x, y)\<close>.
\<close>

definition Math_round :: "real \<Rightarrow> real" where
  "Math_round x = of_int \<lfloor>x + 1 / 2\<rfloor>"

definition Math_atan2 :: "real \<Rightarrow> real \<Rightarrow> real" where
  "Math_atan2 y x =
     (if x > 0 then arctan (y / x)
      else if x < 0 then (if y \<ge> 0 then arctan (y / x) + pi else arctan (y / x) - pi)
      else if y > 0 then pi / 2
      else if y < 0 then - (pi / 2)
      else 0)"

definition toRadians :: "real \<Rightarrow> real" where
  "toRadians degrees = degrees * (pi / 180)"

definition calculateDistance :: "real \<Rightarrow> real \<Rightarrow> real \<Rightarrow> real \<Rightarrow> real" where
  "calculateDistance lat1 lng1 lat2 lng2 =
     (let R = 6371000;
          dLat = toRadians (lat2 - lat1);
          dLng = toRadians (lng2 - lng1);
          a = sin (dLat / 2) * sin (dLat / 2) +
              cos (toRadians lat1) * cos (toRadians lat2) * sin (dLng / 2) * sin (dLng / 2);
          c = 2 * Math_atan2 (sqrt a) (sqrt (1 - a))
      in R * c)"

text \<open>\<^verbatim>\<open>xs.reduce((sum, x) => sum + f(x), 0)\<close>.\<close>

definition reduceSum :: "('a \<Rightarrow> real) \<Rightarrow> 'a list \<Rightarrow> real" where
  "reduceSum f xs = foldl (\<lambda>sum x. sum + f x) 0 xs"

definition calculateRadius :: "DataSubmission list \<Rightarrow> real" where
  "calculateRadius submissions =
     (if length submissions \<le> 1 then 0
      else
        let centerLat =
              reduceSum (\<lambda>sub. latitude (sub_location sub)) submissions
                / real (length submissions);
            centerLng =
              reduceSum (\<lambda>sub. longitude (sub_location sub)) submissions
                / real (length submissions);
            maxDistance =
              foldl (\<lambda>maxDistance submission.
                       max maxDistance
                         (calculateDistance centerLat centerLng
                            (latitude (sub_location submission))
                            (longitude (sub_location submission))))
                0 submissions
        in Math_round maxDistance)"

text \<open>
  \<^verbatim>\<open>processDataSubmissions\<close> reads the clock once, for the \<^verbatim>\<open>timestamp\<close> field of
  the aggregate it returns (in both branches). \<^verbatim>\<open>new Set(...).size\<close> counts the
  distinct device ids.
\<close>

definition processDataSubmissions :: "real \<Rightarrow> DataSubmission list \<Rightarrow> AggregatedNetworkData" where
  "processDataSubmissions now submissions =
     (if length submissions = 0 then
        \<lparr>agg_region = \<lparr>br_latitude = 0, br_longitude = 0, br_radius = 0\<rparr>,
         agg_averageSignalStrength = 0, agg_averageLatency = 0,
         agg_averageThroughput = 0, agg_averageAvailability = 0,
         agg_deviceCount = 0, agg_dataPoints = 0, agg_timestamp = now\<rparr>
      else
        let n = real (length submissions);
            totalSignalStrength = reduceSum sub_signalStrength submissions;
            totalLatency = reduceSum sub_latency submissions;
            totalThroughput = reduceSum sub_throughput submissions;
            totalAvailability = reduceSum sub_availability submissions;
            avgLatitude = reduceSum (\<lambda>sub. latitude (sub_location sub)) submissions / n;
            avgLongitude = reduceSum (\<lambda>sub. longitude (sub_location sub)) submissions / n
        in \<lparr>agg_region =
               \<lparr>br_latitude = avgLatitude, br_longitude = avgLongitude,
                br_radius = calculateRadius submissions\<rparr>,
             agg_averageSignalStrength = totalSignalStrength / n,
             agg_averageLatency = totalLatency / n,
             agg_averageThroughput = totalThroughput / n,
             agg_averageAvailability = totalAvailability / n,
             agg_deviceCount = real (length (remdups (map sub_device submissions))),
             agg_dataPoints = n,
             agg_timestamp = now\<rparr>)"

text \<open>
  The rounding of \<^verbatim>\<open>anonymizeData\<close> is applied to exact products here; in binary64 a
  product such as \<open>1.005 * 100\<close> lies just below the half and rounds down. Which way a
  value rounds plays no part in what is proved about this function.
\<close>

definition anonymizeData :: "AggregatedNetworkData \<Rightarrow> AggregatedNetworkData" where
  "anonymizeData data =
     data
       \<lparr>agg_region :=
          \<lparr>br_latitude = Math_round (br_latitude (agg_region data) * 100) / 100,
           br_longitude = Math_round (br_longitude (agg_region data) * 100) / 100,
           br_radius = Math_round (br_radius (agg_region data))\<rparr>,
        agg_averageSignalStrength := Math_round (agg_averageSignalStrength data),
        agg_averageLatency := Math_round (agg_averageLatency data),
        agg_averageThroughput := Math_round (agg_averageThroughput data),
        agg_averageAvailability := Math_round (agg_averageAvailability data * 100) / 100\<rparr>"

text \<open>
  \<^verbatim>\<open>getDataSubmissions\<close> is a stub in the source: it ignores the time range and the
  region and returns an empty array.
\<close>

definition getDataSubmissions :: "real \<times> real \<Rightarrow> bridgeRegion option \<Rightarrow> DataSubmission list" where
  "getDataSubmissions timeRange region = []"

text \<open>
  \<^verbatim>\<open>aggregateNetworkData\<close> wraps the three steps in a \<^verbatim>\<open>try\<close>; none of them throws
  on finite numbers, so the \<^verbatim>\<open>catch\<close> branch is not taken.
\<close>

definition aggregateNetworkData ::
  "real \<Rightarrow> real \<times> real \<Rightarrow> bridgeRegion option \<Rightarrow> error + AggregatedNetworkData" where
  "aggregateNetworkData now timeRange region =
     (let dataSubmissions = getDataSubmissions timeRange region;
          aggregatedData = processDataSubmissions now dataSubmissions;
          anonymizedData = anonymizeData aggregatedData
      in Inr anonymizedData)"

text \<open>
  \<^verbatim>\<open>migrateToCorda\<close> posts one aggregate. What the permissioned layer answers is the
  environment's: the \<^verbatim>\<open>fetch\<close> promise rejects, or it resolves to a response with
  its \<^verbatim>\<open>ok\<close> flag, its status text and a body; the body fails to parse as an
  object (\<open>None\<close>) or is an object whose \<^verbatim>\<open>transactionId\<close> may be missing. Every
  exception inside the \<^verbatim>\<open>try\<close> is replaced by one error for the whole call. The
  request body is built from the aggregate and a clock reading and is not modelled.
\<close>

datatype fetchOutcome =
    FetchRejected
  | FetchResponse bool string "string option option"

definition migrateToCorda :: "fetchOutcome \<Rightarrow> AggregatedNetworkData \<Rightarrow> error + string option" where
  "migrateToCorda response aggregatedData =
     (case response of
        FetchRejected \<Rightarrow> Inl (MigrationFailure ''Failed to migrate data to Corda'')
      | FetchResponse ok statusText body \<Rightarrow>
          if \<not> ok then Inl (MigrationFailure ''Failed to migrate data to Corda'')
          else (case body of
                  None \<Rightarrow> Inl (MigrationFailure ''Failed to migrate data to Corda'')
                | Some result \<Rightarrow> Inr result))"

section \<open>The mock of the permissioned ledger (TypeScript, \<^verbatim>\<open>MockCordaNetwork\<close>)\<close>

datatype AgreementStatus = PENDING | ACTIVE | SUSPENDED | TERMINATED | EXPIRED

record mockMetrics =
  mm_averageSignalStrength :: real
  mm_averageLatency :: real
  mm_averageThroughput :: real
  mm_averageAvailability :: real
  mm_deviceCount :: real
  mm_dataPoints :: real

record mockNetworkData =
  mnd_region :: string
  mnd_metrics :: mockMetrics
  mnd_timestamp :: real

record mockTerms =
  mt_dataSharing :: bool
  mt_infrastructureAccess :: bool
  mt_revenueSharing :: real
  mt_duration :: real

record mockQuality =
  mq_averageQuality :: real
  mq_coverageArea :: real
  mq_deviceCount :: real

text \<open>
  The mock's agreement has no \<^verbatim>\<open>terminationTime\<close> and its status type has no
  \<^verbatim>\<open>EXPIRED\<close>; the mock has no operation that activates, terminates or expires an
  agreement. Of the mock's state, the aggregates and the roaming agreements are modelled;
  its infrastructure contracts mirror the agreements.
\<close>

record mockRoamingAgreement =
  mra_id :: string
  mra_partnerId :: string
  mra_region :: string
  mra_terms :: mockTerms
  mra_networkData :: mockQuality
  mra_status :: AgreementStatus
  mra_creationTime :: real
  mra_lastExecutionTime :: real

record mockRecommendations =
  infrastructureInvestment :: "string list"
  partnershipOpportunities :: "string list"
  costOptimization :: "string list"

record B2BInsights =
  ins_region :: string
  ins_timeRange :: "real \<times> real"
  ins_averageQuality :: real
  ins_coverageDensity :: real
  ins_performanceTrends :: "real list"
  ins_recommendations :: mockRecommendations

datatype mockEvent =
    RoamingAgreementCreated mockRoamingAgreement
  | RoamingAgreementExecuted mockRoamingAgreement real
  | NetworkInsightsGenerated B2BInsights

record MockCordaNetwork =
  networkData :: "mockNetworkData list"
  roamingAgreements :: "string \<rightharpoonup> mockRoamingAgreement"

text \<open>
  \<^verbatim>\<open>createRoamingAgreement\<close> is the only operation of the mock that stores an
  agreement, and the only status it writes is \<^verbatim>\<open>PENDING\<close>. It reads the clock three
  times (\<open>clock k\<close> is the \<open>k\<close>-th reading); \<open>numberToString\<close> is the conversion the
  template string applies to the first reading.
\<close>

definition createRoamingAgreement ::
  "(nat \<Rightarrow> real) \<Rightarrow> (real \<Rightarrow> string) \<Rightarrow> string \<Rightarrow> string \<Rightarrow> mockTerms \<Rightarrow> mockQuality
     \<Rightarrow> MockCordaNetwork \<Rightarrow> string \<times> MockCordaNetwork \<times> mockEvent list" where
  "createRoamingAgreement clock numberToString partnerId region terms netData s =
     (let agreementId = ''agreement_'' @ numberToString (clock 0);
          agreement =
            \<lparr>mra_id = agreementId, mra_partnerId = partnerId, mra_region = region,
             mra_terms = terms, mra_networkData = netData, mra_status = PENDING,
             mra_creationTime = clock 1, mra_lastExecutionTime = clock 2\<rparr>
      in (agreementId,
          s\<lparr>roamingAgreements := (roamingAgreements s)(agreementId \<mapsto> agreement)\<rparr>,
          [RoamingAgreementCreated agreement]))"

text \<open>\<^verbatim>\<open>calculateRevenue\<close>, in binary64: three products and a quotient, each rounded.\<close>

definition calculateRevenue :: "mockRoamingAgreement \<Rightarrow> real" where
  "calculateRevenue agreement =
     (let baseRevenue = binary64 (mq_deviceCount (mra_networkData agreement) * 100);
          qualityMultiplier = mq_averageQuality (mra_networkData agreement);
          coverageMultiplier = binary64 (mq_coverageArea (mra_networkData agreement) / 1000)
      in binary64 (binary64 (baseRevenue * qualityMultiplier) * coverageMultiplier))"

text \<open>
  \<^verbatim>\<open>executeRoamingAgreement\<close> checks the stored status only. The revenue goes into
  the log line and the \<^verbatim>\<open>roamingAgreementExecuted\<close> event; the agreement object has
  no field for it.
\<close>

definition executeRoamingAgreement ::
  "real \<Rightarrow> string \<Rightarrow> MockCordaNetwork
     \<Rightarrow> (error + string) \<times> MockCordaNetwork \<times> mockEvent list" where
  "executeRoamingAgreement now agreementId s =
     (case roamingAgreements s agreementId of
        None \<Rightarrow> (Inl (NotFound ''Roaming agreement not found''), s, [])
      | Some agreement \<Rightarrow>
          if mra_status agreement \<noteq> ACTIVE
          then (Inl (InvalidState ''Agreement is not active''), s, [])
          else
            let revenue = calculateRevenue agreement;
                agreement' = agreement\<lparr>mra_lastExecutionTime := now\<rparr>
            in (Inr ''mock_corda_tx_execute_agreement_123'',
                s\<lparr>roamingAgreements := (roamingAgreements s)(agreementId \<mapsto> agreement')\<rparr>,
                [RoamingAgreementExecuted agreement' revenue]))"

text \<open>
  The mock's \<^verbatim>\<open>generateRecommendations\<close>. Its \<^verbatim>\<open>avgQuality\<close> is the mean of
  \<^verbatim>\<open>averageAvailability\<close> as \<^verbatim>\<open>reduce\<close> and the division compute it, in binary64:
  every addition and the quotient are rounded (the length of an array is an exact
  double), and the thresholds are the doubles nearest to 0.6, 0.8 and 0.9.
\<close>

definition reduceSum64 :: "('a \<Rightarrow> real) \<Rightarrow> 'a list \<Rightarrow> real" where
  "reduceSum64 f xs = foldl (\<lambda>sum x. binary64 (sum + f x)) 0 xs"

definition mockAvgQuality :: "mockNetworkData list \<Rightarrow> real" where
  "mockAvgQuality data =
     (if length data > 0
      then binary64 (reduceSum64 (\<lambda>d. mm_averageAvailability (mnd_metrics d)) data
                       / real (length data))
      else 0)"

definition mockGenerateRecommendations :: "mockNetworkData list \<Rightarrow> mockRecommendations" where
  "mockGenerateRecommendations data =
     (let avgQuality = mockAvgQuality data
      in \<lparr>infrastructureInvestment =
             (if avgQuality < binary64 0.6
              then [''Invest in network infrastructure upgrades'',
                    ''Deploy additional base stations'']
              else []),
           partnershipOpportunities =
             (if avgQuality > binary64 0.8
              then [''Offer premium roaming services'', ''Expand into adjacent markets'']
              else []),
           costOptimization =
             (if avgQuality > binary64 0.9
              then [''Optimize network resources'', ''Implement automated management'']
              else [])\<rparr>)"

text \<open>
  In the mock, \<^verbatim>\<open>coverageDensity\<close> is the mean \<^verbatim>\<open>deviceCount\<close> per aggregate: its
  aggregates carry a region name and no radius. The two means of \<^verbatim>\<open>getNetworkInsights\<close>
  itself are exact here.
\<close>

definition getNetworkInsights ::
  "string \<Rightarrow> real \<Rightarrow> real \<Rightarrow> MockCordaNetwork \<Rightarrow> B2BInsights \<times> mockEvent list" where
  "getNetworkInsights region startTime endTime s =
     (let relevantData =
            filter (\<lambda>data. mnd_region data = region \<and> mnd_timestamp data \<ge> startTime
                            \<and> mnd_timestamp data \<le> endTime)
              (networkData s);
          insights =
            \<lparr>ins_region = region,
             ins_timeRange = (startTime, endTime),
             ins_averageQuality =
               (if length relevantData > 0
                then reduceSum (\<lambda>data. mm_averageAvailability (mnd_metrics data)) relevantData
                       / real (length relevantData)
                else 0),
             ins_coverageDensity =
               (if length relevantData > 0
                then reduceSum (\<lambda>data. mm_deviceCount (mnd_metrics data)) relevantData
                       / real (length relevantData)
                else 0),
             ins_performanceTrends =
               map (\<lambda>data. mm_averageAvailability (mnd_metrics data)) relevantData,
             ins_recommendations = mockGenerateRecommendations relevantData\<rparr>
      in (insights, [NetworkInsightsGenerated insights]))"

section \<open>Roaming agreements on the permissioned ledger (Kotlin contract and flows)\<close>

subsection \<open>\<^verbatim>\<open>java.time.Instant\<close>\<close>

text \<open>
  An instant is a count of seconds since the epoch and a nanosecond adjustment.
  \<^verbatim>\<open>plusSeconds\<close> adds with \<^verbatim>\<open>Math.addExact\<close> on the 64-bit second count and then
  checks the range an \<^verbatim>\<open>Instant\<close> may hold; both checks throw.
\<close>

record Instant =
  inst_seconds :: int
  inst_nanos :: int

definition MIN_SECOND :: int where
  "MIN_SECOND = - 31557014167219200"

definition MAX_SECOND :: int where
  "MAX_SECOND = 31556889864403199"

definition validInstant :: "Instant \<Rightarrow> bool" where
  "validInstant i \<longleftrightarrow>
     MIN_SECOND \<le> inst_seconds i \<and> inst_seconds i \<le> MAX_SECOND \<and>
     0 \<le> inst_nanos i \<and> inst_nanos i \<le> 999999999"

definition plusSeconds :: "Instant \<Rightarrow> 64 word \<Rightarrow> error + Instant" where
  "plusSeconds i secondsToAdd =
     (if secondsToAdd = 0 then Inr i
      else
        let epochSec = inst_seconds i + sint secondsToAdd
        in if epochSec < - (2 ^ 63) \<or> epochSec > 2 ^ 63 - 1
           then Inl (ArithmeticFailure ''long overflow'')
           else if epochSec < MIN_SECOND \<or> epochSec > MAX_SECOND
           then Inl (ArithmeticFailure ''Instant exceeds minimum or maximum instant'')
           else Inr (i\<lparr>inst_seconds := epochSec\<rparr>))"

definition isBefore :: "Instant \<Rightarrow> Instant \<Rightarrow> bool" where
  "isBefore a b \<longleftrightarrow>
     inst_seconds a < inst_seconds b \<or>
     (inst_seconds a = inst_seconds b \<and> inst_nanos a < inst_nanos b)"

definition isAfter :: "Instant \<Rightarrow> Instant \<Rightarrow> bool" where
  "isAfter a b \<longleftrightarrow>
     inst_seconds a > inst_seconds b \<or>
     (inst_seconds a = inst_seconds b \<and> inst_nanos a > inst_nanos b)"

subsection \<open>States (RoamingAgreementContract.kt)\<close>

record AgreementTerms =
  dataSharing :: bool
  infrastructureAccess :: bool
  revenueSharing :: real
  duration :: "64 word"
  minimumQuality :: real
  coverageArea :: real
  performanceMetrics :: "string list"

definition termsIsValid :: "AgreementTerms \<Rightarrow> bool" where
  "termsIsValid t \<longleftrightarrow>
     0 \<le> revenueSharing t \<and> revenueSharing t \<le> 100 \<and>
     sint (duration t) > 0 \<and>
     0 \<le> minimumQuality t \<and> minimumQuality t \<le> 1 \<and>
     coverageArea t > 0 \<and>
     performanceMetrics t \<noteq> []"

record NetworkQualityData =
  nq_averageQuality :: real
  nq_coverageArea :: real
  nq_deviceCount :: "32 word"
  nq_lastUpdated :: Instant

record RoamingAgreementState =
  ras_id :: string
  ras_partnerId :: string
  ras_region :: string
  ras_terms :: AgreementTerms
  ras_networkData :: NetworkQualityData
  ras_status :: AgreementStatus
  creationTime :: Instant
  lastExecutionTime :: Instant
  terminationTime :: "Instant option"
  ras_participants :: "string list"

text \<open>
  \<^verbatim>\<open>isExpired\<close> reads the clock. \<^verbatim>\<open>terms.duration * 86400\<close> is a multiplication of
  \<^verbatim>\<open>Long\<close>s and wraps.
\<close>

definition isExpired :: "Instant \<Rightarrow> RoamingAgreementState \<Rightarrow> error + bool" where
  "isExpired now a =
     (case plusSeconds (creationTime a) (duration (ras_terms a) * 86400) of
        Inl e \<Rightarrow> Inl e
      | Inr expiry \<Rightarrow> Inr (isBefore expiry now))"

definition isActive :: "Instant \<Rightarrow> RoamingAgreementState \<Rightarrow> error + bool" where
  "isActive now a =
     (if ras_status a \<noteq> ACTIVE then Inr False
      else (case isExpired now a of Inl e \<Rightarrow> Inl e | Inr b \<Rightarrow> Inr (\<not> b)))"

subsection \<open>The contract's verification\<close>

datatype Commands = Create | Update | Execute | Terminate

record LedgerTransaction =
  tx_inputs :: "RoamingAgreementState list"
  tx_outputs :: "RoamingAgreementState list"
  tx_command :: Commands

text \<open>
  Each \<^verbatim>\<open>"text" using (condition)\<close> of a \<^verbatim>\<open>requireThat\<close> block throws
  \<^verbatim>\<open>IllegalArgumentException\<close> with that text when the condition is false; the
  requirements are checked in order. A requirement on the stored status or on expiry is
  reported as \<open>InvalidState\<close>, every other one as \<open>ContractViolation\<close>. All states of a
  transaction are roaming agreements here, so \<^verbatim>\<open>single()\<close> succeeds once the size
  requirement has passed.
\<close>

definition verifyCreate :: "LedgerTransaction \<Rightarrow> error + unit" where
  "verifyCreate tx =
     (if tx_inputs tx \<noteq> []
      then Inl (ContractViolation ''No inputs should be consumed when creating roaming agreement'')
      else if length (tx_outputs tx) \<noteq> 1
      then Inl (ContractViolation ''One output should be created'')
      else
        let output = hd (tx_outputs tx)
        in if \<not> termsIsValid (ras_terms output)
           then Inl (ContractViolation ''Agreement must have valid terms'')
           else if \<not> sint (duration (ras_terms output)) > 0
           then Inl (ContractViolation ''Agreement must have valid duration'')
           else if \<not> length (ras_participants output) \<ge> 2
           then Inl (ContractViolation ''Agreement must have valid parties'')
           else Inr ())"

definition verifyUpdate :: "Instant \<Rightarrow> LedgerTransaction \<Rightarrow> error + unit" where
  "verifyUpdate now tx =
     (if length (tx_inputs tx) \<noteq> 1
      then Inl (ContractViolation ''One input should be consumed when updating agreement'')
      else if length (tx_outputs tx) \<noteq> 1
      then Inl (ContractViolation ''One output should be created when updating agreement'')
      else
        let input = hd (tx_inputs tx); output = hd (tx_outputs tx)
        in if ras_id input \<noteq> ras_id output
           then Inl (ContractViolation ''Agreement ID must remain the same'')
           else if \<not> termsIsValid (ras_terms output)
           then Inl (ContractViolation ''Updated agreement must have valid terms'')
           else (case isExpired now output of
                   Inl e \<Rightarrow> Inl e
                 | Inr expired \<Rightarrow>
                     if expired then Inl (InvalidState ''Agreement must not be expired'')
                     else Inr ()))"

definition verifyExecute :: "Instant \<Rightarrow> LedgerTransaction \<Rightarrow> error + unit" where
  "verifyExecute now tx =
     (if length (tx_inputs tx) \<noteq> 1
      then Inl (ContractViolation ''One input should be consumed when executing agreement'')
      else if length (tx_outputs tx) \<noteq> 1
      then Inl (ContractViolation ''One output should be created when executing agreement'')
      else
        let input = hd (tx_inputs tx); output = hd (tx_outputs tx)
        in if ras_status input \<noteq> ACTIVE
           then Inl (InvalidState ''Agreement must be active'')
           else (case isExpired now input of
                   Inl e \<Rightarrow> Inl e
                 | Inr expired \<Rightarrow>
                     if expired then Inl (InvalidState ''Agreement must not be expired'')
                     else if \<not> isAfter (lastExecutionTime output) (lastExecutionTime input)
                     then Inl (ContractViolation ''Execution must update last execution time'')
                     else Inr ()))"

definition verifyTerminate :: "LedgerTransaction \<Rightarrow> error + unit" where
  "verifyTerminate tx =
     (if length (tx_inputs tx) \<noteq> 1
      then Inl (ContractViolation ''One input should be consumed when terminating agreement'')
      else if length (tx_outputs tx) \<noteq> 1
      then Inl (ContractViolation ''One output should be created when terminating agreement'')
      else
        let input = hd (tx_inputs tx); output = hd (tx_outputs tx)
        in if ras_status input \<noteq> ACTIVE
           then Inl (InvalidState ''Agreement must be active to terminate'')
           else if ras_status output \<noteq> TERMINATED
           then Inl (ContractViolation ''Status must change to terminated'')
           else if terminationTime output = None
           then Inl (ContractViolation ''Termination time must be set'')
           else Inr ())"

definition verify :: "Instant \<Rightarrow> LedgerTransaction \<Rightarrow> error + unit" where
  "verify now tx =
     (case tx_command tx of
        Create \<Rightarrow> verifyCreate tx
      | Update \<Rightarrow> verifyUpdate now tx
      | Execute \<Rightarrow> verifyExecute now tx
      | Terminate \<Rightarrow> verifyTerminate tx)"

subsection \<open>The flows\<close>

text \<open>
  The vault is the list of unconsumed agreement states. A flow looks the agreement up by
  id, checks its own \<^verbatim>\<open>require\<close>, builds the next version with \<^verbatim>\<open>copy\<close>, and
  finalises a transaction that consumes the version found and produces the new one; the
  contract verifies the transaction before it is recorded. A flow reads the clock more
  than once: \<open>clock k\<close> is its \<open>k\<close>-th reading of \<^verbatim>\<open>Instant.now()\<close>. The reading
  handed to \<open>finalise\<close> is the one the contract takes in \<^verbatim>\<open>isExpired\<close>; the
  requirements of Create and Terminate read no clock. Signing and the notary are not
  modelled: a transaction the contract accepts is recorded, and the flow returns it to
  its caller (the \<^verbatim>\<open>SignedTransaction\<close>). A flow returns nothing else.
\<close>

definition findById :: "RoamingAgreementState list \<Rightarrow> string \<Rightarrow> RoamingAgreementState option" where
  "findById vault agreementId = find (\<lambda>a. ras_id a = agreementId) vault"

definition finalise ::
  "Instant \<Rightarrow> LedgerTransaction \<Rightarrow> RoamingAgreementState list
     \<Rightarrow> (error + LedgerTransaction) \<times> RoamingAgreementState list" where
  "finalise verifyTime tx vault =
     (case verify verifyTime tx of
        Inl e \<Rightarrow> (Inl e, vault)
      | Inr _ \<Rightarrow> (Inr tx, foldr remove1 (tx_inputs tx) vault @ tx_outputs tx))"

definition CreateRoamingAgreementFlow ::
  "(nat \<Rightarrow> Instant) \<Rightarrow> string \<Rightarrow> string \<Rightarrow> string \<Rightarrow> AgreementTerms \<Rightarrow> NetworkQualityData
     \<Rightarrow> string list \<Rightarrow> RoamingAgreementState list
     \<Rightarrow> (error + LedgerTransaction) \<times> RoamingAgreementState list" where
  "CreateRoamingAgreementFlow clock newId partnerId region terms netData participants vault =
     (let roamingAgreementState =
            \<lparr>ras_id = newId, ras_partnerId = partnerId, ras_region = region,
             ras_terms = terms, ras_networkData = netData, ras_status = PENDING,
             creationTime = clock 0, lastExecutionTime = clock 1,
             terminationTime = None, ras_participants = participants\<rparr>
      in finalise (clock 2)
           \<lparr>tx_inputs = [], tx_outputs = [roamingAgreementState], tx_command = Create\<rparr> vault)"

definition ActivateRoamingAgreementFlow ::
  "(nat \<Rightarrow> Instant) \<Rightarrow> string \<Rightarrow> RoamingAgreementState list
     \<Rightarrow> (error + LedgerTransaction) \<times> RoamingAgreementState list" where
  "ActivateRoamingAgreementFlow clock agreementId vault =
     (case findById vault agreementId of
        None \<Rightarrow> (Inl (NotFound (''Roaming agreement with ID '' @ agreementId @ '' not found'')), vault)
      | Some agreementState \<Rightarrow>
          let activatedState = agreementState\<lparr>ras_status := ACTIVE, lastExecutionTime := clock 0\<rparr>
          in finalise (clock 1)
               \<lparr>tx_inputs = [agreementState], tx_outputs = [activatedState],
                tx_command = Update\<rparr> vault)"

definition ExecuteRoamingAgreementFlow ::
  "(nat \<Rightarrow> Instant) \<Rightarrow> string \<Rightarrow> RoamingAgreementState list
     \<Rightarrow> (error + LedgerTransaction) \<times> RoamingAgreementState list" where
  "ExecuteRoamingAgreementFlow clock agreementId vault =
     (case findById vault agreementId of
        None \<Rightarrow> (Inl (NotFound (''Roaming agreement with ID '' @ agreementId @ '' not found'')), vault)
      | Some agreementState \<Rightarrow>
          (case isActive (clock 0) agreementState of
             Inl e \<Rightarrow> (Inl e, vault)
           | Inr active \<Rightarrow>
               if \<not> active then (Inl (InvalidState ''Agreement must be active to execute''), vault)
               else
                 let executedState = agreementState\<lparr>lastExecutionTime := clock 1\<rparr>
                 in finalise (clock 2)
                      \<lparr>tx_inputs = [agreementState], tx_outputs = [executedState],
                       tx_command = Execute\<rparr> vault))"

definition TerminateRoamingAgreementFlow ::
  "(nat \<Rightarrow> Instant) \<Rightarrow> string \<Rightarrow> RoamingAgreementState list
     \<Rightarrow> (error + LedgerTransaction) \<times> RoamingAgreementState list" where
  "TerminateRoamingAgreementFlow clock agreementId vault =
     (case findById vault agreementId of
        None \<Rightarrow> (Inl (NotFound (''Roaming agreement with ID '' @ agreementId @ '' not found'')), vault)
      | Some agreementState \<Rightarrow>
          if ras_status agreementState \<noteq> ACTIVE
          then (Inl (InvalidState ''Agreement must be active to terminate''), vault)
          else
            let terminatedState =
                  agreementState\<lparr>ras_status := TERMINATED, terminationTime := Some (clock 0)\<rparr>
            in finalise (clock 1)
                 \<lparr>tx_inputs = [agreementState], tx_outputs = [terminatedState],
                  tx_command = Terminate\<rparr> vault)"

section \<open>Network data on the permissioned ledger (Kotlin services)\<close>

record NetworkRegion =
  nr_latitude :: real
  nr_longitude :: real
  nr_radius :: real
  nr_country :: string
  nr_city :: string

record NetworkMetrics =
  nm_averageSignalStrength :: real
  nm_averageLatency :: real
  nm_averageThroughput :: real
  nm_averageAvailability :: real
  nm_deviceCount :: "32 word"
  nm_dataPoints :: "32 word"
  qualityScore :: real

record NetworkDataState =
  nds_id :: string
  nds_region :: NetworkRegion
  nds_metrics :: NetworkMetrics
  nds_timestamp :: Instant
  nds_source :: string
  nds_version :: string
  nds_participants :: "string list"

text \<open>
  A division of \<^verbatim>\<open>Double\<close>s does not throw: by zero it yields an infinity or NaN.
  A comparison with NaN is false.
\<close>

datatype xdouble = Fin real | PosInf | NegInf | NaN

definition xdiv :: "real \<Rightarrow> real \<Rightarrow> xdouble" where
  "xdiv a b =
     (if b \<noteq> 0 then Fin (a / b)
      else if a > 0 then PosInf else if a < 0 then NegInf else NaN)"

fun xless :: "xdouble \<Rightarrow> real \<Rightarrow> bool" where
  "xless (Fin x) c = (x < c)"
| "xless PosInf c = False"
| "xless NegInf c = True"
| "xless NaN c = False"

text \<open>
  \<^verbatim>\<open>sumBy\<close> adds \<^verbatim>\<open>Int\<close>s and wraps; \<^verbatim>\<open>sumByDouble\<close> adds \<^verbatim>\<open>Double\<close>s
  (\<open>sumByDouble64\<close> rounds each addition); \<^verbatim>\<open>average()\<close> adds the elements one by
  one and divides by their number, in binary64, and is NaN for an empty list.
  \<^verbatim>\<open>Math.PI\<close> is the double nearest to \<open>\<pi>\<close>.
\<close>

definition sumBy :: "('a \<Rightarrow> 32 word) \<Rightarrow> 'a list \<Rightarrow> 32 word" where
  "sumBy f xs = foldl (\<lambda>sum x. sum + f x) 0 xs"

definition sumByDouble :: "('a \<Rightarrow> real) \<Rightarrow> 'a list \<Rightarrow> real" where
  "sumByDouble f xs = foldl (\<lambda>sum x. sum + f x) 0 xs"

definition sumByDouble64 :: "('a \<Rightarrow> real) \<Rightarrow> 'a list \<Rightarrow> real" where
  "sumByDouble64 f xs = foldl (\<lambda>sum x. binary64 (sum + f x)) 0 xs"

definition average :: "real list \<Rightarrow> xdouble" where
  "average xs =
     (if xs = [] then NaN
      else Fin (binary64 (foldl (\<lambda>sum x. binary64 (sum + x)) 0 xs / real (length xs))))"

definition xdiv64 :: "real \<Rightarrow> real \<Rightarrow> xdouble" where
  "xdiv64 a b =
     (if b \<noteq> 0 then Fin (binary64 (a / b))
      else if a > 0 then PosInf else if a < 0 then NegInf else NaN)"

definition Math_PI :: real where
  "Math_PI = binary64 3.14159265358979323846"

subsection \<open>\<^verbatim>\<open>AggregateNetworkDataForB2B\<close> (NetworkDataService.kt)\<close>

definition calculateCoverageDensity :: "NetworkDataState list \<Rightarrow> xdouble" where
  "calculateCoverageDensity data =
     (if data = [] then Fin 0.0
      else
        let totalArea = sumByDouble (\<lambda>it. pi * nr_radius (nds_region it) * nr_radius (nds_region it)) data;
            totalDevices = sumBy (\<lambda>it. nm_deviceCount (nds_metrics it)) data
        in xdiv (real_of_int (sint totalDevices)) totalArea)"

text \<open>
  The same function on doubles: the area of each aggregate is \<open>(Math.PI * r) * r\<close>, the
  areas and the quotient are rounded, the \<^verbatim>\<open>Int\<close> sum converts exactly.
\<close>

definition calculateCoverageDensity64 :: "NetworkDataState list \<Rightarrow> xdouble" where
  "calculateCoverageDensity64 data =
     (if data = [] then Fin 0.0
      else
        let totalArea =
              sumByDouble64
                (\<lambda>it. binary64 (binary64 (Math_PI * nr_radius (nds_region it))
                                 * nr_radius (nds_region it))) data;
            totalDevices = sumBy (\<lambda>it. nm_deviceCount (nds_metrics it)) data
        in xdiv64 (real_of_int (sint totalDevices)) totalArea)"

text \<open>
  The Kotlin recommendations are one \<^verbatim>\<open>when\<close>: the first branch that matches. The two
  averages it compares are the rounded ones, and the thresholds are the doubles nearest to
  0.6 and 0.1.
\<close>

definition generateRecommendations :: "NetworkDataState list \<Rightarrow> string list" where
  "generateRecommendations data =
     (let avgQuality = average (map (\<lambda>it. qualityScore (nds_metrics it)) data);
          avgCoverage = calculateCoverageDensity64 data
      in if xless avgQuality (binary64 0.6)
         then [''Consider infrastructure investment in low-quality areas'']
         else if xless avgCoverage (binary64 0.1)
         then [''Expand network coverage in underserved areas'']
         else if length data < 10
         then [''Increase data collection frequency'']
         else [''Network performance is optimal''])"

subsection \<open>\<^verbatim>\<open>CreateNetworkDataFromSolana\<close> and the batch migration (SolanaCordaBridge.kt)\<close>

record SolanaRegion =
  sr_latitude :: real
  sr_longitude :: real
  sr_radius :: real
  sr_country :: string
  sr_city :: string

record SolanaNetworkMetrics =
  sm_averageSignalStrength :: real
  sm_averageLatency :: real
  sm_averageThroughput :: real
  sm_averageAvailability :: real
  sm_deviceCount :: "32 word"
  sm_dataPoints :: "32 word"

record SolanaNetworkData =
  snd_region :: SolanaRegion
  snd_metrics :: SolanaNetworkMetrics
  snd_timestamp :: Instant

definition normalizeSignalStrength :: "real \<Rightarrow> real" where
  "normalizeSignalStrength s =
     (if s \<ge> - 50 then 1.0 else if s \<ge> - 60 then 0.9 else if s \<ge> - 70 then 0.8
      else if s \<ge> - 80 then 0.6 else if s \<ge> - 90 then 0.4 else 0.2)"

definition normalizeLatency :: "real \<Rightarrow> real" where
  "normalizeLatency l =
     (if l \<le> 20 then 1.0 else if l \<le> 50 then 0.9 else if l \<le> 100 then 0.8
      else if l \<le> 200 then 0.6 else if l \<le> 500 then 0.4 else 0.2)"

definition normalizeThroughput :: "real \<Rightarrow> real" where
  "normalizeThroughput t =
     (if t \<ge> 1000000 then 1.0 else if t \<ge> 500000 then 0.8 else if t \<ge> 100000 then 0.6
      else if t \<ge> 50000 then 0.4 else 0.2)"

definition calculateQualityScore :: "SolanaNetworkMetrics \<Rightarrow> real" where
  "calculateQualityScore metrics =
     (let signalScore = normalizeSignalStrength (sm_averageSignalStrength metrics);
          latencyScore = normalizeLatency (sm_averageLatency metrics);
          throughputScore = normalizeThroughput (sm_averageThroughput metrics);
          availabilityScore = sm_averageAvailability metrics
      in (signalScore + latencyScore + throughputScore + availabilityScore) / 4.0)"

text \<open>
  The id of the new state is a fresh \<^verbatim>\<open>UniqueIdentifier\<close> and its timestamp a clock
  reading; both are arguments here.
\<close>

definition CreateNetworkDataFromSolana ::
  "string \<Rightarrow> Instant \<Rightarrow> string list \<Rightarrow> SolanaNetworkData \<Rightarrow> NetworkDataState" where
  "CreateNetworkDataFromSolana newId now participants solanaData =
     (let networkRegion =
            \<lparr>nr_latitude = sr_latitude (snd_region solanaData),
             nr_longitude = sr_longitude (snd_region solanaData),
             nr_radius = sr_radius (snd_region solanaData),
             nr_country = sr_country (snd_region solanaData),
             nr_city = sr_city (snd_region solanaData)\<rparr>;
          networkMetrics =
            \<lparr>nm_averageSignalStrength = sm_averageSignalStrength (snd_metrics solanaData),
             nm_averageLatency = sm_averageLatency (snd_metrics solanaData),
             nm_averageThroughput = sm_averageThroughput (snd_metrics solanaData),
             nm_averageAvailability = sm_averageAvailability (snd_metrics solanaData),
             nm_deviceCount = sm_deviceCount (snd_metrics solanaData),
             nm_dataPoints = sm_dataPoints (snd_metrics solanaData),
             qualityScore = calculateQualityScore (snd_metrics solanaData)\<rparr>
      in \<lparr>nds_id = newId, nds_region = networkRegion, nds_metrics = networkMetrics,
          nds_timestamp = now, nds_source = ''solana_depin'', nds_version = ''1.0'',
          nds_participants = participants\<rparr>)"

record NetworkDataMigrationResult =
  solanaDataId :: string
  cordaDataId :: "string option"
  success :: bool
  message :: string

record MigrationResult =
  totalDataPoints :: nat
  successCount :: nat
  failureCount :: nat
  migrationResults :: "NetworkDataMigrationResult list"
  mr_timestamp :: Instant

text \<open>
  The loop of \<^verbatim>\<open>MigrateNetworkDataFromSolana\<close>. Running the sub-flow for one record
  is the framework's: \<open>subFlow data\<close> is the state it returns, or \<open>Inl m\<close> when it throws
  an \<^verbatim>\<open>Exception\<close> with message \<open>m\<close>; \<open>instantToString\<close> is \<^verbatim>\<open>Instant.toString\<close>.
  The three counters are bounded by the size of the list and are natural numbers here.
\<close>

fun migrateLoop ::
  "(SolanaNetworkData \<Rightarrow> string + NetworkDataState) \<Rightarrow> (Instant \<Rightarrow> string)
     \<Rightarrow> SolanaNetworkData list \<Rightarrow> NetworkDataMigrationResult list \<times> nat \<times> nat
     \<Rightarrow> NetworkDataMigrationResult list \<times> nat \<times> nat" where
  "migrateLoop subFlow instantToString [] acc = acc"
| "migrateLoop subFlow instantToString (data # rest) (results, successes, failures) =
     (case subFlow data of
        Inr networkDataState \<Rightarrow>
          migrateLoop subFlow instantToString rest
            (results @
               [\<lparr>solanaDataId = instantToString (snd_timestamp data),
                 cordaDataId = Some (nds_id networkDataState),
                 success = True,
                 message = ''Network data migrated successfully''\<rparr>],
             successes + 1, failures)
      | Inl m \<Rightarrow>
          migrateLoop subFlow instantToString rest
            (results @
               [\<lparr>solanaDataId = instantToString (snd_timestamp data),
                 cordaDataId = None,
                 success = False,
                 message = ''Failed to migrate network data: '' @ m\<rparr>],
             successes, failures + 1))"

definition MigrateNetworkDataFromSolana ::
  "(SolanaNetworkData \<Rightarrow> string + NetworkDataState) \<Rightarrow> (Instant \<Rightarrow> string) \<Rightarrow> Instant
     \<Rightarrow> SolanaNetworkData list \<Rightarrow> MigrationResult" where
  "MigrateNetworkDataFromSolana subFlow instantToString now solanaData =
     (case migrateLoop subFlow instantToString solanaData ([], 0, 0) of
        (results, successes, failures) \<Rightarrow>
          \<lparr>totalDataPoints = length solanaData,
           successCount = successes,
           failureCount = failures,
           migrationResults = results,
           mr_timestamp = now\<rparr>)"

section \<open>Sample inputs\<close>

text \<open>Concrete devices, telemetry and ledger states on which the theorems are instantiated.\<close>

definition sampleLocation :: geo where
  "sampleLocation = \<lparr>latitude = 35.68, longitude = 139.76, accuracy = 10\<rparr>"

definition sampleTelemetry :: NetworkData where
  "sampleTelemetry =
     \<lparr>signalStrength = - 65, latency = 45, throughput = 1200000, availability = 0.95,
      nd_location = sampleLocation\<rparr>"

definition oneDevice :: MockSolanaProgram where
  "oneDevice =
     fst (snd (registerDevice 100 ''dev1'' Smartphone sampleLocation ''alice'' initialProgram))"

definition inactiveDevice :: MockSolanaProgram where
  "inactiveDevice = fst (snd (toggleDeviceStatus 150 ''dev1'' oneDevice))"

definition sampleSubmission :: "string \<Rightarrow> real \<Rightarrow> DataSubmission" where
  "sampleSubmission dev ts =
     \<lparr>sub_device = dev, sub_timestamp = ts, sub_signalStrength = - 65, sub_latency = 45,
      sub_throughput = 1200000, sub_availability = 0.95, sub_location = sampleLocation\<rparr>"

definition sampleBatch :: "DataSubmission list" where
  "sampleBatch =
     [sampleSubmission ''dev1'' 10, sampleSubmission ''dev2'' 20, sampleSubmission ''dev1'' 30]"

definition sampleTerms :: AgreementTerms where
  "sampleTerms =
     \<lparr>dataSharing = True, infrastructureAccess = True, revenueSharing = 15, duration = 1,
      minimumQuality = 0.8, coverageArea = 1000, performanceMetrics = [''latency'']\<rparr>"

definition sampleCreation :: Instant where
  "sampleCreation = \<lparr>inst_seconds = 1700000000, inst_nanos = 0\<rparr>"

definition sampleQuality :: NetworkQualityData where
  "sampleQuality =
     \<lparr>nq_averageQuality = 0.9, nq_coverageArea = 1000, nq_deviceCount = 5,
      nq_lastUpdated = sampleCreation\<rparr>"

definition activeAgreement :: RoamingAgreementState where
  "activeAgreement =
     \<lparr>ras_id = ''agreement-1'', ras_partnerId = ''partner-1'', ras_region = ''Tokyo'',
      ras_terms = sampleTerms, ras_networkData = sampleQuality, ras_status = ACTIVE,
      creationTime = sampleCreation, lastExecutionTime = sampleCreation,
      terminationTime = None, ras_participants = [''DOCOMO'', ''Partner'']\<rparr>"

text \<open>A clock that starts \<open>t\<close> seconds after the creation and advances one second per reading.\<close>

definition sampleClock :: "int \<Rightarrow> nat \<Rightarrow> Instant" where
  "sampleClock t k = \<lparr>inst_seconds = 1700000000 + t + int k, inst_nanos = 0\<rparr>"

text \<open>
  The life of the sample agreement on the ledger: created, activated 50 seconds later,
  terminated 100 seconds after its creation.
\<close>

definition createdVault :: "RoamingAgreementState list" where
  "createdVault =
     snd (CreateRoamingAgreementFlow (\<lambda>k. sampleCreation) ''agreement-1'' ''partner-1'' ''Tokyo''
            sampleTerms sampleQuality [''DOCOMO'', ''Partner''] [])"

definition activatedVault :: "RoamingAgreementState list" where
  "activatedVault = snd (ActivateRoamingAgreementFlow (sampleClock 50) ''agreement-1'' createdVault)"

definition activatedAgreement :: RoamingAgreementState where
  "activatedAgreement = activeAgreement\<lparr>lastExecutionTime := sampleClock 50 0\<rparr>"

definition terminatedVault :: "RoamingAgreementState list" where
  "terminatedVault =
     snd (TerminateRoamingAgreementFlow (sampleClock 100) ''agreement-1'' activatedVault)"

definition terminatedAgreement :: RoamingAgreementState where
  "terminatedAgreement =
     activatedAgreement\<lparr>ras_status := TERMINATED, terminationTime := Some (sampleClock 100 0)\<rparr>"

definition reactivatedAgreement :: RoamingAgreementState where
  "reactivatedAgreement =
     terminatedAgreement\<lparr>ras_status := ACTIVE, lastExecutionTime := sampleClock 200 0\<rparr>"

text \<open>
  The store of the mock after one \<^verbatim>\<open>createRoamingAgreement\<close>, and a store that holds an
  \<^verbatim>\<open>ACTIVE\<close> agreement, which no operation of the mock produces.
\<close>

definition sampleMockTerms :: mockTerms where
  "sampleMockTerms =
     \<lparr>mt_dataSharing = True, mt_infrastructureAccess = True, mt_revenueSharing = 15,
      mt_duration = 365\<rparr>"

definition sampleMockQuality :: mockQuality where
  "sampleMockQuality =
     \<lparr>mq_averageQuality = binary64 0.9, mq_coverageArea = 1000, mq_deviceCount = 5\<rparr>"

definition emptyMockStore :: MockCordaNetwork where
  "emptyMockStore = \<lparr>networkData = [], roamingAgreements = Map.empty\<rparr>"

definition pendingMockStore :: MockCordaNetwork where
  "pendingMockStore =
     fst (snd (createRoamingAgreement (\<lambda>k. 1700000000000) (\<lambda>t. ''1700000000000'')
                 ''partner-1'' ''Tokyo'' sampleMockTerms sampleMockQuality emptyMockStore))"

definition activeMockAgreement :: mockRoamingAgreement where
  "activeMockAgreement =
     \<lparr>mra_id = ''agreement_0'', mra_partnerId = ''partner-1'', mra_region = ''Tokyo'',
      mra_terms = sampleMockTerms, mra_networkData = sampleMockQuality,
      mra_status = ACTIVE, mra_creationTime = 0, mra_lastExecutionTime = 0\<rparr>"

definition activeMockStore :: MockCordaNetwork where
  "activeMockStore =
     \<lparr>networkData = [], roamingAgreements = [''agreement_0'' \<mapsto> activeMockAgreement]\<rparr>"

definition sampleAggregate :: "32 word \<Rightarrow> real \<Rightarrow> real \<Rightarrow> NetworkDataState" where
  "sampleAggregate count radius quality =
     \<lparr>nds_id = ''nd'',
      nds_region = \<lparr>nr_latitude = 35.68, nr_longitude = 139.76, nr_radius = radius,
                    nr_country = ''JP'', nr_city = ''Tokyo''\<rparr>,
      nds_metrics = \<lparr>nm_averageSignalStrength = - 65, nm_averageLatency = 45,
                     nm_averageThroughput = 1200000, nm_averageAvailability = 0.95,
                     nm_deviceCount = count, nm_dataPoints = 10, qualityScore = quality\<rparr>,
      nds_timestamp = sampleCreation, nds_source = ''solana_depin'', nds_version = ''1.0'',
      nds_participants = [''DOCOMO'']\<rparr>"

definition sampleMockAggregate :: "real \<Rightarrow> real \<Rightarrow> mockNetworkData" where
  "sampleMockAggregate count avail =
     \<lparr>mnd_region = ''Tokyo'',
      mnd_metrics = \<lparr>mm_averageSignalStrength = - 65, mm_averageLatency = 45,
                     mm_averageThroughput = 1200000, mm_averageAvailability = avail,
                     mm_deviceCount = count, mm_dataPoints = 10\<rparr>,
      mnd_timestamp = 5\<rparr>"

definition insightsStore :: MockCordaNetwork where
  "insightsStore =
     \<lparr>networkData = [sampleMockAggregate 3 0.95, sampleMockAggregate 2 0.95],
      roamingAgreements = Map.empty\<rparr>"

definition sampleSolanaData :: "int \<Rightarrow> SolanaNetworkData" where
  "sampleSolanaData t =
     \<lparr>snd_region = \<lparr>sr_latitude = 35.68, sr_longitude = 139.76, sr_radius = 10,
                    sr_country = ''JP'', sr_city = ''Tokyo''\<rparr>,
      snd_metrics = \<lparr>sm_averageSignalStrength = - 65, sm_averageLatency = 45,
                     sm_averageThroughput = 1200000, sm_averageAvailability = 0.95,
                     sm_deviceCount = 3, sm_dataPoints = 10\<rparr>,
      snd_timestamp = \<lparr>inst_seconds = t, inst_nanos = 0\<rparr>\<rparr>"

text \<open>A sub-flow that throws for the record stamped 2 and returns the new state otherwise.\<close>

definition sampleSubFlow :: "SolanaNetworkData \<Rightarrow> string + NetworkDataState" where
  "sampleSubFlow d =
     (if inst_seconds (snd_timestamp d) = 2 then Inl ''notary unavailable''
      else Inr (CreateNetworkDataFromSolana ''nd'' sampleCreation [''DOCOMO''] d))"

section \<open>Properties of the reward engine\<close>

lemma calculateReward_sample:
  assumes "signalStrength q = - 65" "latency q = 45" "throughput q = 1200000"
    "availability q = 0.95"
  shows "calculateReward q 0 = 2223" and "calculateReward q 1 = 2224"
  unfolding calculateReward_def Math_floor_def Let_def assms by simp_all

text \<open>
  The sample of claim C1 in binary64 arithmetic: the rounded products are
  \<open>1.7999999999999998\<close>, \<open>2.34\<close>, \<open>2.223\<close> and \<open>2223\<close>, so \<^verbatim>\<open>Math.floor\<close> yields
  2223 there as well.
\<close>

lemma calculateReward64_sample:
  "calculateReward64 (- 65) 45 1200000 (binary64 0.95) 0 = 2223"
  by code_simp

lemma oneDevice_lookup:
  "devices oneDevice ''dev1'' =
     Some \<lparr>dev_id = ''dev1'', dev_owner = ''alice'', dev_deviceType = Smartphone,
           dev_location = sampleLocation, dev_isActive = True, totalUptime = 0,
           totalRewardsEarned = 0, lastActivity = 100\<rparr>"
  by (simp add: oneDevice_def registerDevice_def initialProgram_def Let_def)



text \<open>
  Claim C4. \<^verbatim>\<open>submitData\<close> fails with \<open>NotFound\<close> when the device id is unknown and
  with \<open>InactiveDevice\<close> when the device exists and is not active. In both cases the
  state after the call is the state before it, so no field of any device
  (\<^verbatim>\<open>totalUptime\<close>, \<^verbatim>\<open>totalRewardsEarned\<close>, \<^verbatim>\<open>lastActivity\<close>, \<^verbatim>\<open>location\<close>) and
  neither global counter (\<^verbatim>\<open>totalRewardsDistributed\<close>, \<^verbatim>\<open>rewardVault\<close>) has changed,
  and no event was emitted.
\<close>

theorem submitData_rejects_without_mutation:
  "(devices s deviceId = None \<longrightarrow>
      submitData now deviceId q s = (Inl (NotFound ''Device not found''), s, []))
   \<and> (\<forall>d. devices s deviceId = Some d \<and> \<not> dev_isActive d \<longrightarrow>
      submitData now deviceId q s = (Inl (InactiveDevice ''Device is not active''), s, []))"
  by (simp add: submitData_def)

theorem submitData_rejects_without_mutation_witness:
  "submitData 200 ''ghost'' sampleTelemetry oneDevice =
      (Inl (NotFound ''Device not found''), oneDevice, [])
   \<and> submitData 200 ''dev1'' sampleTelemetry inactiveDevice =
      (Inl (InactiveDevice ''Device is not active''), inactiveDevice, [])"
proof -
  have a: "devices oneDevice ''ghost'' = None"
    by (simp add: oneDevice_def registerDevice_def initialProgram_def Let_def)
  have b: "devices inactiveDevice ''dev1'' =
     Some \<lparr>dev_id = ''dev1'', dev_owner = ''alice'', dev_deviceType = Smartphone,
           dev_location = sampleLocation, dev_isActive = False, totalUptime = 0,
           totalRewardsEarned = 0, lastActivity = 150\<rparr>"
    by (simp add: inactiveDevice_def toggleDeviceStatus_def oneDevice_lookup Let_def)
  show ?thesis
    using submitData_rejects_without_mutation [of oneDevice "''ghost''" 200 sampleTelemetry]
      submitData_rejects_without_mutation [of inactiveDevice "''dev1''" 200 sampleTelemetry]
      a b
    by simp
qed

text \<open>
  Claim C10. Every call of \<^verbatim>\<open>registerDevice\<close> stores a fresh device (uptime 0,
  rewards 0, active) under the id, replacing whatever was stored there, and adds one to
  \<^verbatim>\<open>totalDevices\<close>. So a device that has earned 2223 tokens and is registered again
  under the same id is back at 0 with the new owner, and \<^verbatim>\<open>totalDevices\<close> is 2 while
  one device is stored.
\<close>

theorem registerDevice_replaces_and_counts:
  "registerDevice now deviceId devType loc own s =
     (''mock_tx_register_device_123'',
      s\<lparr>devices := (devices s)(deviceId \<mapsto>
            \<lparr>dev_id = deviceId, dev_owner = own, dev_deviceType = devType,
             dev_location = loc, dev_isActive = True, totalUptime = 0,
             totalRewardsEarned = 0, lastActivity = now\<rparr>),
        programState := (programState s)
            \<lparr>totalDevices := totalDevices (programState s) + 1\<rparr>\<rparr>,
      [DeviceRegistered
         \<lparr>dev_id = deviceId, dev_owner = own, dev_deviceType = devType,
          dev_location = loc, dev_isActive = True, totalUptime = 0,
          totalRewardsEarned = 0, lastActivity = now\<rparr>])
   \<and> (let earned = fst (snd (submitData 200 ''dev1'' sampleTelemetry oneDevice));
           again = fst (snd (registerDevice 300 ''dev1'' Router sampleLocation ''bob'' earned))
       in map_option totalRewardsEarned (devices earned ''dev1'') = Some 2223
          \<and> map_option totalRewardsEarned (devices again ''dev1'') = Some 0
          \<and> map_option dev_owner (devices again ''dev1'') = Some ''bob''
          \<and> dom (devices again) = {''dev1''}
          \<and> totalDevices (programState again) = 2
          \<and> real (card (dom (devices again))) < totalDevices (programState again))"
proof -
  have r0: "calculateReward sampleTelemetry 0 = 2223"
    by (rule calculateReward_sample) (simp_all add: sampleTelemetry_def)
  show ?thesis
    by (simp add: registerDevice_def Let_def submitData_def oneDevice_def initialProgram_def r0)
qed

section \<open>Properties of the bridge\<close>

text \<open>
  Claim C2, as stated, fails: the aggregate has a \<^verbatim>\<open>timestamp\<close> field, which
  \<^verbatim>\<open>processDataSubmissions\<close> sets to the clock reading of the run, so two runs on the
  same record set at different times differ in that field.
\<close>

theorem aggregation_timestamp_differs:
  "anonymizeData (processDataSubmissions 1000 [sampleSubmission ''dev1'' 10])
     \<noteq> anonymizeData (processDataSubmissions 2000 [sampleSubmission ''dev1'' 10])"
proof
  assume "anonymizeData (processDataSubmissions 1000 [sampleSubmission ''dev1'' 10])
     = anonymizeData (processDataSubmissions 2000 [sampleSubmission ''dev1'' 10])"
  then have "agg_timestamp (anonymizeData (processDataSubmissions 1000 [sampleSubmission ''dev1'' 10]))
     = agg_timestamp (anonymizeData (processDataSubmissions 2000 [sampleSubmission ''dev1'' 10]))"
    by simp
  then show False
    by (simp add: anonymizeData_def processDataSubmissions_def Let_def)
qed

lemma processDataSubmissions_clock:
  "processDataSubmissions t1 subs = (processDataSubmissions t2 subs)\<lparr>agg_timestamp := t1\<rparr>"
  by (simp add: processDataSubmissions_def Let_def)

lemma anonymizeData_clock:
  "anonymizeData (a\<lparr>agg_timestamp := t\<rparr>) = (anonymizeData a)\<lparr>agg_timestamp := t\<rparr>"
  by (simp add: anonymizeData_def)

lemma anonymizeData_timestamp: "agg_timestamp (anonymizeData a) = agg_timestamp a"
  by (simp add: anonymizeData_def)

lemma processDataSubmissions_timestamp: "agg_timestamp (processDataSubmissions t subs) = t"
  by (simp add: processDataSubmissions_def Let_def)

text \<open>
  Claim C2, amended. For every record set, two runs of the aggregation (means, centroid,
  radius, then the rounding of \<^verbatim>\<open>anonymizeData\<close>) yield aggregates that agree on every
  field except \<^verbatim>\<open>timestamp\<close>, which is the clock reading of each run; the two outputs
  are identical exactly when the two readings are. The same holds for
  \<^verbatim>\<open>aggregateNetworkData\<close>, whatever the time range and region.
\<close>

theorem aggregation_deterministic_up_to_timestamp:
  "anonymizeData (processDataSubmissions t1 subs)
     = (anonymizeData (processDataSubmissions t2 subs))\<lparr>agg_timestamp := t1\<rparr>
   \<and> agg_timestamp (anonymizeData (processDataSubmissions t1 subs)) = t1
   \<and> (anonymizeData (processDataSubmissions t1 subs)
        = anonymizeData (processDataSubmissions t2 subs)) = (t1 = t2)
   \<and> aggregateNetworkData t1 timeRange region
        = map_sum id (\<lambda>a. a\<lparr>agg_timestamp := t1\<rparr>) (aggregateNetworkData t2 timeRange region)"
proof -
  have a: "anonymizeData (processDataSubmissions t1 subs)
     = (anonymizeData (processDataSubmissions t2 subs))\<lparr>agg_timestamp := t1\<rparr>" for t1 t2 subs
    using processDataSubmissions_clock [of t1 subs t2] anonymizeData_clock by metis
  have b: "agg_timestamp (anonymizeData (processDataSubmissions t subs)) = t" for t
    by (simp add: anonymizeData_timestamp processDataSubmissions_timestamp)
  have c: "(anonymizeData (processDataSubmissions t1 subs)
        = anonymizeData (processDataSubmissions t2 subs)) = (t1 = t2)"
  proof
    assume "anonymizeData (processDataSubmissions t1 subs)
        = anonymizeData (processDataSubmissions t2 subs)"
    then have "agg_timestamp (anonymizeData (processDataSubmissions t1 subs))
        = agg_timestamp (anonymizeData (processDataSubmissions t2 subs))" by simp
    then show "t1 = t2" by (simp only: b)
  next
    assume "t1 = t2" then show "anonymizeData (processDataSubmissions t1 subs)
        = anonymizeData (processDataSubmissions t2 subs)" by simp
  qed
  have d: "aggregateNetworkData t1 timeRange region
        = map_sum id (\<lambda>a. a\<lparr>agg_timestamp := t1\<rparr>) (aggregateNetworkData t2 timeRange region)"
    using a [of t1 "getDataSubmissions timeRange region" t2]
    by (simp add: aggregateNetworkData_def Let_def)
  show ?thesis using a b c d by blast
qed

text \<open>
  Claim C3, as stated, fails for \<^verbatim>\<open>migrateToCorda\<close>: it posts one aggregate (here the
  aggregate of a batch of three records) and, when the response is not ok, throws one
  error for the whole call; it returns no per-item report.
\<close>

theorem migrateToCorda_fails_as_a_whole:
  "migrateToCorda (FetchResponse False ''Service Unavailable'' None)
     (anonymizeData (processDataSubmissions 1000 sampleBatch))
   = Inl (MigrationFailure ''Failed to migrate data to Corda'')"
  by (simp add: migrateToCorda_def)

lemma migrateLoop_acc:
  "migrateLoop sf ts xs (rs, a, b) =
     (rs @ map (\<lambda>d. case sf d of
                  Inr st \<Rightarrow> \<lparr>solanaDataId = ts (snd_timestamp d), cordaDataId = Some (nds_id st),
                            success = True, message = ''Network data migrated successfully''\<rparr>
                | Inl m \<Rightarrow> \<lparr>solanaDataId = ts (snd_timestamp d), cordaDataId = None,
                            success = False,
                            message = ''Failed to migrate network data: '' @ m\<rparr>) xs,
      a + length (filter (\<lambda>d. \<not> isl (sf d)) xs),
      b + length (filter (\<lambda>d. isl (sf d)) xs))"
proof (induction xs arbitrary: rs a b)
  case Nil
  then show ?case by simp
next
  case (Cons d xs)
  show ?case
  proof (cases "sf d")
    case (Inl m)
    then show ?thesis by (simp add: Cons.IH)
  next
    case (Inr st)
    then show ?thesis by (simp add: Cons.IH)
  qed
qed

lemma filter_split_length:
  "length (filter (\<lambda>d. \<not> P d) xs) + length (filter P xs) = length xs"
  by (induction xs) auto

text \<open>
  Claim C3, amended. \<^verbatim>\<open>migrateToCorda\<close> hands over one aggregate and returns the
  transaction id of the response, or fails as a whole with
  \<^verbatim>\<open>Failed to migrate data to Corda\<close> when the request is rejected, the response is not
  ok or its body does not parse. The per-item report is the one of the batch flow
  \<^verbatim>\<open>MigrateNetworkDataFromSolana\<close>: for every list of \<open>N\<close> records it returns a
  \<^verbatim>\<open>MigrationResult\<close> with \<open>totalDataPoints = N\<close>, one result per record in the order
  of the list, whose \<^verbatim>\<open>success\<close> flag is true exactly when the sub-flow of that record
  returned, and with \<open>successCount + failureCount = N\<close>; an exception of one record
  does not end the batch.
\<close>

theorem migration_reports_per_item:
  "migrateToCorda FetchRejected agg = Inl (MigrationFailure ''Failed to migrate data to Corda'')
   \<and> migrateToCorda (FetchResponse False statusText body) agg
       = Inl (MigrationFailure ''Failed to migrate data to Corda'')
   \<and> migrateToCorda (FetchResponse True statusText None) agg
       = Inl (MigrationFailure ''Failed to migrate data to Corda'')
   \<and> migrateToCorda (FetchResponse True statusText (Some result)) agg = Inr result
   \<and> (let r = MigrateNetworkDataFromSolana subFlow ts now solanaData
      in totalDataPoints r = length solanaData
       \<and> length (migrationResults r) = length solanaData
       \<and> map success (migrationResults r) = map (\<lambda>d. \<not> isl (subFlow d)) solanaData
       \<and> map solanaDataId (migrationResults r) = map (\<lambda>d. ts (snd_timestamp d)) solanaData
       \<and> successCount r = length (filter (\<lambda>d. \<not> isl (subFlow d)) solanaData)
       \<and> failureCount r = length (filter (\<lambda>d. isl (subFlow d)) solanaData)
       \<and> successCount r + failureCount r = totalDataPoints r)"
proof -
  have m: "migrateToCorda FetchRejected agg = Inl (MigrationFailure ''Failed to migrate data to Corda'')
   \<and> migrateToCorda (FetchResponse False statusText body) agg
       = Inl (MigrationFailure ''Failed to migrate data to Corda'')
   \<and> migrateToCorda (FetchResponse True statusText None) agg
       = Inl (MigrationFailure ''Failed to migrate data to Corda'')
   \<and> migrateToCorda (FetchResponse True statusText (Some result)) agg = Inr result"
    by (simp add: migrateToCorda_def)
  have s: "map success (map (\<lambda>d. case subFlow d of
                  Inr st \<Rightarrow> \<lparr>solanaDataId = ts (snd_timestamp d), cordaDataId = Some (nds_id st),
                            success = True, message = ''Network data migrated successfully''\<rparr>
                | Inl m \<Rightarrow> \<lparr>solanaDataId = ts (snd_timestamp d), cordaDataId = None,
                            success = False,
                            message = ''Failed to migrate network data: '' @ m\<rparr>) solanaData)
           = map (\<lambda>d. \<not> isl (subFlow d)) solanaData"
    by (induction solanaData) (auto split: sum.splits)
  have i: "map solanaDataId (map (\<lambda>d. case subFlow d of
                  Inr st \<Rightarrow> \<lparr>solanaDataId = ts (snd_timestamp d), cordaDataId = Some (nds_id st),
                            success = True, message = ''Network data migrated successfully''\<rparr>
                | Inl m \<Rightarrow> \<lparr>solanaDataId = ts (snd_timestamp d), cordaDataId = None,
                            success = False,
                            message = ''Failed to migrate network data: '' @ m\<rparr>) solanaData)
           = map (\<lambda>d. ts (snd_timestamp d)) solanaData"
    by (induction solanaData) (auto split: sum.splits)
  show ?thesis
    using m s i filter_split_length [of "\<lambda>d. isl (subFlow d)" solanaData]
    by (simp add: MigrateNetworkDataFromSolana_def migrateLoop_acc Let_def)
qed

text \<open>
  A batch of three records whose second sub-flow throws: the report has three entries,
  two successes and one failure, and the flow returns.
\<close>

lemma migration_sample:
  "(let r = MigrateNetworkDataFromSolana sampleSubFlow (\<lambda>i. ''t'') sampleCreation
              [sampleSolanaData 1, sampleSolanaData 2, sampleSolanaData 3]
    in totalDataPoints r = 3 \<and> successCount r = 2 \<and> failureCount r = 1
       \<and> map success (migrationResults r) = [True, False, True]
       \<and> map message (migrationResults r)
          = [''Network data migrated successfully'',
             ''Failed to migrate network data: notary unavailable'',
             ''Network data migrated successfully''])"
  by (simp add: MigrateNetworkDataFromSolana_def sampleSubFlow_def sampleSolanaData_def
        CreateNetworkDataFromSolana_def Let_def)

section \<open>Properties of the roaming agreements\<close>

lemma sint_mult_86400:
  fixes d :: "64 word"
  assumes "- (2 ^ 63) \<le> sint d * 86400" "sint d * 86400 < 2 ^ 63"
  shows "sint (d * 86400) = sint d * 86400"
proof -
  have "sint (d * 86400) = signed_take_bit 63 (sint d * sint (86400 :: 64 word))"
    by (simp add: sint_word_ariths)
  also have "sint (86400 :: 64 word) = 86400" by simp
  finally show ?thesis using assms by (simp add: signed_take_bit_int_eq_self)
qed

lemma activeAgreement_not_expired:
  "0 \<le> t \<Longrightarrow> t \<le> 86400 \<Longrightarrow> isExpired (sampleClock t k) activeAgreement = Inr (86400 < t + int k)"
  by (auto simp add: isExpired_def plusSeconds_def activeAgreement_def sampleTerms_def
        sampleCreation_def sampleClock_def isBefore_def Let_def MIN_SECOND_def MAX_SECOND_def)

lemma activeAgreement_expired_later:
  "isExpired (sampleClock 172800 0) activeAgreement = Inr True"
  by (simp add: isExpired_def plusSeconds_def activeAgreement_def sampleTerms_def
        sampleCreation_def sampleClock_def isBefore_def Let_def MIN_SECOND_def MAX_SECOND_def)

lemma isExpired_update_irrelevant:
  "isExpired t (a\<lparr>ras_status := st\<rparr>) = isExpired t a"
  "isExpired t (a\<lparr>lastExecutionTime := l\<rparr>) = isExpired t a"
  "isExpired t (a\<lparr>terminationTime := tt\<rparr>) = isExpired t a"
  by (simp_all add: isExpired_def)

lemma sampleTerms_valid: "termsIsValid sampleTerms"
  by (simp add: termsIsValid_def sampleTerms_def)

text \<open>The vaults of the sample life: one version of the agreement each.\<close>

lemma createdVault_eq: "createdVault = [activeAgreement\<lparr>ras_status := PENDING\<rparr>]"
  using sampleTerms_valid
  by (simp add: createdVault_def CreateRoamingAgreementFlow_def finalise_def verify_def
        verifyCreate_def activeAgreement_def Let_def) (simp add: sampleTerms_def)

lemma activatedVault_eq: "activatedVault = [activatedAgreement]"
proof -
  have e: "isExpired (sampleClock 50 1)
             (activeAgreement\<lparr>ras_status := ACTIVE, lastExecutionTime := sampleClock 50 0\<rparr>)
           = Inr False"
    using activeAgreement_not_expired [of 50 1] by (simp add: isExpired_update_irrelevant)
  show ?thesis
    using sampleTerms_valid e
    by (simp add: activatedVault_def createdVault_eq ActivateRoamingAgreementFlow_def
          findById_def finalise_def verify_def verifyUpdate_def activeAgreement_def
          activatedAgreement_def Let_def)
qed

lemma terminatedVault_eq: "terminatedVault = [terminatedAgreement]"
  by (simp add: terminatedVault_def activatedVault_eq TerminateRoamingAgreementFlow_def
        findById_def finalise_def verify_def verifyTerminate_def activatedAgreement_def
        terminatedAgreement_def activeAgreement_def Let_def)

lemma finalise_Terminate:
  assumes "ras_status a = ACTIVE"
  shows "finalise t \<lparr>tx_inputs = [a],
            tx_outputs = [a\<lparr>ras_status := TERMINATED, terminationTime := Some c\<rparr>],
            tx_command = Terminate\<rparr> vault
         = (Inr \<lparr>tx_inputs = [a],
                 tx_outputs = [a\<lparr>ras_status := TERMINATED, terminationTime := Some c\<rparr>],
                 tx_command = Terminate\<rparr>,
            remove1 a vault @ [a\<lparr>ras_status := TERMINATED, terminationTime := Some c\<rparr>])"
  using assms by (simp add: finalise_def verify_def verifyTerminate_def Let_def)

lemma finalise_Execute:
  assumes "ras_status a = ACTIVE" and "isExpired t a = Inr False"
  shows "finalise t \<lparr>tx_inputs = [a], tx_outputs = [a\<lparr>lastExecutionTime := c\<rparr>],
            tx_command = Execute\<rparr> vault
         = (if isAfter c (lastExecutionTime a)
            then (Inr \<lparr>tx_inputs = [a], tx_outputs = [a\<lparr>lastExecutionTime := c\<rparr>],
                       tx_command = Execute\<rparr>,
                  remove1 a vault @ [a\<lparr>lastExecutionTime := c\<rparr>])
            else (Inl (ContractViolation ''Execution must update last execution time''), vault))"
  using assms by (simp add: finalise_def verify_def verifyExecute_def Let_def)

text \<open>
  Claim C6. \<^verbatim>\<open>isExpired()\<close> is computed live from \<^verbatim>\<open>creationTime\<close>,
  \<^verbatim>\<open>terms.duration\<close> and the clock: for an agreement created at instant \<open>T\<close> with a
  duration of \<open>d\<close> days (\<open>d > 0\<close>, as the contract requires at creation) whose expiry
  \<open>T + d\<close> days is an instant \<^verbatim>\<open>Instant\<close> can hold, a read at \<open>now\<close> returns exactly
  whether that expiry is before \<open>now\<close>. So every read strictly after \<open>T + d\<close> days returns
  \<open>true\<close> (the expiry is then in range, and neither the 64-bit product
  \<^verbatim>\<open>duration * 86400\<close> nor \<^verbatim>\<open>plusSeconds\<close> overflows), and a read at or before it
  returns \<open>false\<close>. The stored status is not read: the answer is the same for every
  status, so it is \<open>true\<close> after the expiry while the status is still \<^verbatim>\<open>ACTIVE\<close>.
\<close>

theorem isExpired_computed_live:
  assumes "validInstant (creationTime a)" and "0 < sint (duration (ras_terms a))"
  shows
    "(inst_seconds (creationTime a) + sint (duration (ras_terms a)) * 86400 \<le> MAX_SECOND \<longrightarrow>
        isExpired now a
          = Inr (isBefore
                   ((creationTime a)
                      \<lparr>inst_seconds :=
                         inst_seconds (creationTime a) + sint (duration (ras_terms a)) * 86400\<rparr>)
                   now))
     \<and> (validInstant now
          \<and> isBefore
               ((creationTime a)
                  \<lparr>inst_seconds :=
                     inst_seconds (creationTime a) + sint (duration (ras_terms a)) * 86400\<rparr>)
               now \<longrightarrow>
        isExpired now a = Inr True)
     \<and> isExpired now (a\<lparr>ras_status := st\<rparr>) = isExpired now a"
proof -
  let ?d = "sint (duration (ras_terms a))"
  let ?T = "inst_seconds (creationTime a)"
  let ?expiry = "(creationTime a)\<lparr>inst_seconds := ?T + ?d * 86400\<rparr>"
  have Tlo: "MIN_SECOND \<le> ?T" using assms(1) by (simp add: validInstant_def)
  have pos: "0 < ?d * 86400" using assms(2) by simp
  have char: "isExpired now a = Inr (isBefore ?expiry now)" if le: "?T + ?d * 86400 \<le> MAX_SECOND"
  proof -
    have small: "?d * 86400 < 2 ^ 63"
      using le Tlo by (simp add: MIN_SECOND_def MAX_SECOND_def)
    have eq: "sint (duration (ras_terms a) * 86400) = ?d * 86400"
      using sint_mult_86400 pos small by simp
    have nz: "duration (ras_terms a) * 86400 \<noteq> 0"
    proof
      assume "duration (ras_terms a) * 86400 = 0"
      then have "sint (duration (ras_terms a) * 86400) = 0" by simp
      with eq pos show False by simp
    qed
    have ps: "plusSeconds (creationTime a) (duration (ras_terms a) * 86400) = Inr ?expiry"
      using nz eq pos le Tlo
      by (simp add: plusSeconds_def Let_def MIN_SECOND_def MAX_SECOND_def)
    show ?thesis by (simp add: isExpired_def ps)
  qed
  have after: "isExpired now a = Inr True" if v: "validInstant now" and b: "isBefore ?expiry now"
  proof -
    have "?T + ?d * 86400 \<le> inst_seconds now" using b by (auto simp add: isBefore_def)
    moreover have "inst_seconds now \<le> MAX_SECOND" using v by (simp add: validInstant_def)
    ultimately have "?T + ?d * 86400 \<le> MAX_SECOND" by simp
    then show ?thesis using char b by simp
  qed
  have st: "isExpired now (a\<lparr>ras_status := st\<rparr>) = isExpired now a"
    by (simp add: isExpired_def)
  show ?thesis using char after st by blast
qed

theorem isExpired_computed_live_witness:
  "ras_status activeAgreement = ACTIVE
   \<and> isExpired \<lparr>inst_seconds = 1700000000 + 2 * 86400, inst_nanos = 0\<rparr> activeAgreement = Inr True
   \<and> isExpired \<lparr>inst_seconds = 1700000000 + 86400, inst_nanos = 1\<rparr> activeAgreement = Inr True
   \<and> isExpired \<lparr>inst_seconds = 1700000000 + 86400, inst_nanos = 0\<rparr> activeAgreement = Inr False
   \<and> isExpired \<lparr>inst_seconds = 1700000000 + 43200, inst_nanos = 0\<rparr> activeAgreement = Inr False
   \<and> isExpired \<lparr>inst_seconds = 1700000000 + 2 * 86400, inst_nanos = 0\<rparr>
        (activeAgreement\<lparr>ras_status := EXPIRED\<rparr>) = Inr True"
proof -
  have v: "validInstant (creationTime activeAgreement)"
    by (simp add: activeAgreement_def sampleCreation_def validInstant_def MIN_SECOND_def
          MAX_SECOND_def)
  have d: "0 < sint (duration (ras_terms activeAgreement))"
    by (simp add: activeAgreement_def sampleTerms_def)
  have m: "inst_seconds (creationTime activeAgreement)
             + sint (duration (ras_terms activeAgreement)) * 86400 \<le> MAX_SECOND"
    by (simp add: activeAgreement_def sampleTerms_def sampleCreation_def MAX_SECOND_def)
  have c: "isExpired now activeAgreement
             = Inr (isBefore \<lparr>inst_seconds = 1700000000 + 86400, inst_nanos = 0\<rparr> now)" for now
    using isExpired_computed_live [OF v d, of now] m
    by (simp add: activeAgreement_def sampleTerms_def sampleCreation_def)
  have s: "isExpired now (activeAgreement\<lparr>ras_status := EXPIRED\<rparr>) = isExpired now activeAgreement"
    for now
    using isExpired_computed_live [OF v d, of now EXPIRED] by simp
  show ?thesis
    by (simp add: c s isBefore_def) (simp add: activeAgreement_def)
qed


text \<open>
  What the code does enforce around termination. \<^verbatim>\<open>terminate\<close> requires the stored
  status \<^verbatim>\<open>ACTIVE\<close>, else it fails with \<open>InvalidState\<close> and the vault is unchanged; on an
  \<^verbatim>\<open>ACTIVE\<close> agreement it replaces the version found by one with status
  \<^verbatim>\<open>TERMINATED\<close> and \<^verbatim>\<open>terminationTime\<close> the clock reading, and
  \<^verbatim>\<open>verifyTerminate\<close> accepts only such transactions. On a \<^verbatim>\<open>TERMINATED\<close> agreement a
  second \<^verbatim>\<open>terminate\<close> and \<^verbatim>\<open>execute\<close> fail with \<open>InvalidState\<close>, in the flow and in
  the contract.
\<close>

lemma terminate_requires_active:
  "(\<forall>a. findById vault agreementId = Some a \<and> ras_status a \<noteq> ACTIVE \<longrightarrow>
        TerminateRoamingAgreementFlow clock agreementId vault
          = (Inl (InvalidState ''Agreement must be active to terminate''), vault))
   \<and> (\<forall>a. findById vault agreementId = Some a \<and> ras_status a = ACTIVE \<longrightarrow>
        TerminateRoamingAgreementFlow clock agreementId vault
          = (Inr \<lparr>tx_inputs = [a],
                  tx_outputs = [a\<lparr>ras_status := TERMINATED, terminationTime := Some (clock 0)\<rparr>],
                  tx_command = Terminate\<rparr>,
             remove1 a vault @ [a\<lparr>ras_status := TERMINATED, terminationTime := Some (clock 0)\<rparr>]))
   \<and> (verifyTerminate tx = Inr () \<longrightarrow>
        ras_status (hd (tx_inputs tx)) = ACTIVE \<and> ras_status (hd (tx_outputs tx)) = TERMINATED
        \<and> terminationTime (hd (tx_outputs tx)) \<noteq> None)
   \<and> (\<forall>a. findById vault agreementId = Some a \<and> ras_status a = TERMINATED \<longrightarrow>
        TerminateRoamingAgreementFlow clock agreementId vault
          = (Inl (InvalidState ''Agreement must be active to terminate''), vault)
        \<and> ExecuteRoamingAgreementFlow clock agreementId vault
          = (Inl (InvalidState ''Agreement must be active to execute''), vault)
        \<and> verifyTerminate \<lparr>tx_inputs = [a], tx_outputs = [out], tx_command = Terminate\<rparr>
          = Inl (InvalidState ''Agreement must be active to terminate'')
        \<and> verifyExecute now \<lparr>tx_inputs = [a], tx_outputs = [out], tx_command = Execute\<rparr>
          = Inl (InvalidState ''Agreement must be active''))"
proof (intro conjI allI impI)
  fix a assume "findById vault agreementId = Some a \<and> ras_status a \<noteq> ACTIVE"
  then show "TerminateRoamingAgreementFlow clock agreementId vault
          = (Inl (InvalidState ''Agreement must be active to terminate''), vault)"
    by (simp add: TerminateRoamingAgreementFlow_def)
next
  fix a assume "findById vault agreementId = Some a \<and> ras_status a = ACTIVE"
  then show "TerminateRoamingAgreementFlow clock agreementId vault
          = (Inr \<lparr>tx_inputs = [a],
                  tx_outputs = [a\<lparr>ras_status := TERMINATED, terminationTime := Some (clock 0)\<rparr>],
                  tx_command = Terminate\<rparr>,
             remove1 a vault @ [a\<lparr>ras_status := TERMINATED, terminationTime := Some (clock 0)\<rparr>])"
    by (simp add: TerminateRoamingAgreementFlow_def finalise_Terminate)
next
  assume v: "verifyTerminate tx = Inr ()"
  then show "ras_status (hd (tx_inputs tx)) = ACTIVE"
    by (simp add: verifyTerminate_def Let_def split: if_splits)
  from v show "ras_status (hd (tx_outputs tx)) = TERMINATED"
    by (simp add: verifyTerminate_def Let_def split: if_splits)
  from v show "terminationTime (hd (tx_outputs tx)) \<noteq> None"
    by (simp add: verifyTerminate_def Let_def split: if_splits)
next
  fix a assume h: "findById vault agreementId = Some a \<and> ras_status a = TERMINATED"
  then show "TerminateRoamingAgreementFlow clock agreementId vault
          = (Inl (InvalidState ''Agreement must be active to terminate''), vault)"
    by (simp add: TerminateRoamingAgreementFlow_def)
  from h show "ExecuteRoamingAgreementFlow clock agreementId vault
          = (Inl (InvalidState ''Agreement must be active to execute''), vault)"
    by (simp add: ExecuteRoamingAgreementFlow_def isActive_def)
  from h show "verifyTerminate \<lparr>tx_inputs = [a], tx_outputs = [out], tx_command = Terminate\<rparr>
          = Inl (InvalidState ''Agreement must be active to terminate'')"
    by (simp add: verifyTerminate_def)
  from h show "verifyExecute now \<lparr>tx_inputs = [a], tx_outputs = [out], tx_command = Execute\<rparr>
          = Inl (InvalidState ''Agreement must be active'')"
    by (simp add: verifyExecute_def)
qed

text \<open>
  On the sample: the termination itself, and the two commands the terminated agreement
  rejects.
\<close>

lemma terminated_sample_rejects_terminate_and_execute:
  "TerminateRoamingAgreementFlow (sampleClock 100) ''agreement-1'' activatedVault
     = (Inr \<lparr>tx_inputs = [activatedAgreement], tx_outputs = [terminatedAgreement],
             tx_command = Terminate\<rparr>,
        terminatedVault)
   \<and> TerminateRoamingAgreementFlow (sampleClock 200) ''agreement-1'' terminatedVault
     = (Inl (InvalidState ''Agreement must be active to terminate''), terminatedVault)
   \<and> ExecuteRoamingAgreementFlow (sampleClock 200) ''agreement-1'' terminatedVault
     = (Inl (InvalidState ''Agreement must be active to execute''), terminatedVault)"
proof -
  have f1: "findById activatedVault ''agreement-1'' = Some activatedAgreement
            \<and> ras_status activatedAgreement = ACTIVE"
    by (simp add: activatedVault_eq findById_def activatedAgreement_def activeAgreement_def)
  have f2: "findById terminatedVault ''agreement-1'' = Some terminatedAgreement
            \<and> ras_status terminatedAgreement = TERMINATED"
    by (simp add: terminatedVault_eq findById_def terminatedAgreement_def activatedAgreement_def
          activeAgreement_def)
  show ?thesis
    using terminate_requires_active [of activatedVault "''agreement-1''" "sampleClock 100"]
      terminate_requires_active [of terminatedVault "''agreement-1''" "sampleClock 200"]
      f1 f2
    by (simp add: terminatedVault_eq activatedVault_eq terminatedAgreement_def)
qed

text \<open>
  Claim C7. \<^verbatim>\<open>terminate\<close> requires status \<^verbatim>\<open>ACTIVE\<close> and sets \<^verbatim>\<open>TERMINATED\<close> with
  \<^verbatim>\<open>terminationTime\<close>; \<^verbatim>\<open>TERMINATED\<close> is terminal, so no later command (activate,
  execute, a second terminate) may succeed on a terminated agreement. The code keeps this
  for terminate and execute (lemma \<open>terminate_requires_active\<close>) and breaks it for
  activate: \<^verbatim>\<open>ActivateRoamingAgreementFlow\<close> has no \<^verbatim>\<open>require\<close> on the status, unlike
  its siblings, and \<^verbatim>\<open>verifyUpdate\<close> does not look at the input's status. The sample
  agreement, created, activated and then terminated 100 seconds after its creation, is
  activated again 100 seconds later: the flow succeeds, the vault holds an \<^verbatim>\<open>ACTIVE\<close>
  version that still carries its \<^verbatim>\<open>terminationTime\<close>, and that version is executed.
\<close>

theorem terminated_agreement_reactivated:
  "map ras_status terminatedVault = [TERMINATED]
   \<and> ActivateRoamingAgreementFlow (sampleClock 200) ''agreement-1'' terminatedVault
       = (Inr \<lparr>tx_inputs = [terminatedAgreement], tx_outputs = [reactivatedAgreement],
               tx_command = Update\<rparr>,
          [reactivatedAgreement])
   \<and> ras_status reactivatedAgreement = ACTIVE
   \<and> terminationTime reactivatedAgreement = Some (sampleClock 100 0)
   \<and> ExecuteRoamingAgreementFlow (sampleClock 300) ''agreement-1'' [reactivatedAgreement]
       = (Inr \<lparr>tx_inputs = [reactivatedAgreement],
               tx_outputs = [reactivatedAgreement\<lparr>lastExecutionTime := sampleClock 300 1\<rparr>],
               tx_command = Execute\<rparr>,
          [reactivatedAgreement\<lparr>lastExecutionTime := sampleClock 300 1\<rparr>])"
proof -
  have e: "isExpired (sampleClock t k) reactivatedAgreement
           = isExpired (sampleClock t k) activeAgreement" for t k
    by (simp add: isExpired_def reactivatedAgreement_def terminatedAgreement_def
          activatedAgreement_def)
  have e1: "isExpired (sampleClock 200 1) activeAgreement = Inr False"
    using activeAgreement_not_expired [of 200 1] by simp
  have e2: "isExpired (sampleClock 300 0) activeAgreement = Inr False"
       "isExpired (sampleClock 300 2) activeAgreement = Inr False"
    using activeAgreement_not_expired [of 300 0] activeAgreement_not_expired [of 300 2]
    by simp_all
  have s: "ras_id terminatedAgreement = ''agreement-1''" "ras_terms terminatedAgreement = sampleTerms"
    "ras_status terminatedAgreement = TERMINATED"
    by (simp_all add: terminatedAgreement_def activatedAgreement_def activeAgreement_def)
  have r: "ras_id reactivatedAgreement = ''agreement-1''"
    "ras_terms reactivatedAgreement = sampleTerms"
    "ras_status reactivatedAgreement = ACTIVE"
    "terminationTime reactivatedAgreement = Some (sampleClock 100 0)"
    "lastExecutionTime reactivatedAgreement = sampleClock 200 0"
    by (simp_all add: reactivatedAgreement_def terminatedAgreement_def activatedAgreement_def
          activeAgreement_def)
  have a: "isAfter (sampleClock 300 1) (sampleClock 200 0)"
    by (simp add: isAfter_def sampleClock_def)
  have act: "ActivateRoamingAgreementFlow (sampleClock 200) ''agreement-1'' terminatedVault
       = (Inr \<lparr>tx_inputs = [terminatedAgreement], tx_outputs = [reactivatedAgreement],
               tx_command = Update\<rparr>,
          [reactivatedAgreement])"
    using e [of 200 1] e1 s r sampleTerms_valid
    by (simp add: terminatedVault_eq ActivateRoamingAgreementFlow_def findById_def finalise_def
          verify_def verifyUpdate_def Let_def reactivatedAgreement_def [symmetric])
  have exe: "ExecuteRoamingAgreementFlow (sampleClock 300) ''agreement-1'' [reactivatedAgreement]
       = (Inr \<lparr>tx_inputs = [reactivatedAgreement],
               tx_outputs = [reactivatedAgreement\<lparr>lastExecutionTime := sampleClock 300 1\<rparr>],
               tx_command = Execute\<rparr>,
          [reactivatedAgreement\<lparr>lastExecutionTime := sampleClock 300 1\<rparr>])"
    using e [of 300 0] e [of 300 2] e2 r a
    by (simp add: ExecuteRoamingAgreementFlow_def findById_def isActive_def finalise_Execute)
  show ?thesis
    using act exe r s by (simp add: terminatedVault_eq)
qed

text \<open>
  Claim C5, as stated, fails in its last part on the permissioned ledger. The sample
  agreement, created and activated by the flows, is executed 100 seconds after its
  creation. The flow succeeds and \<^verbatim>\<open>lastExecutionTime\<close> advances, but what the caller
  gets is the transaction, that is the consumed version, the command and the new version,
  which differs from the consumed one in \<^verbatim>\<open>lastExecutionTime\<close> only: no revenue is
  computed and none is reported. (The mock does compute a revenue on execution, but it
  never holds an \<^verbatim>\<open>ACTIVE\<close> agreement to execute.)
\<close>

theorem execute_reports_no_revenue:
  "ExecuteRoamingAgreementFlow (sampleClock 100) ''agreement-1'' activatedVault
     = (Inr \<lparr>tx_inputs = [activatedAgreement],
             tx_outputs = [activatedAgreement\<lparr>lastExecutionTime := sampleClock 100 1\<rparr>],
             tx_command = Execute\<rparr>,
        [activatedAgreement\<lparr>lastExecutionTime := sampleClock 100 1\<rparr>])"
proof -
  have e: "isExpired (sampleClock 100 k) activatedAgreement = Inr False" if "k \<le> 2" for k
    using activeAgreement_not_expired [of 100 k] that
    by (simp add: activatedAgreement_def isExpired_update_irrelevant)
  have r: "ras_id activatedAgreement = ''agreement-1''" "ras_status activatedAgreement = ACTIVE"
    "lastExecutionTime activatedAgreement = sampleClock 50 0"
    by (simp_all add: activatedAgreement_def activeAgreement_def)
  have a: "isAfter (sampleClock 100 1) (sampleClock 50 0)"
    by (simp add: isAfter_def sampleClock_def)
  show ?thesis
    using e [of 0] e [of 2] r a
    by (simp add: activatedVault_eq ExecuteRoamingAgreementFlow_def findById_def isActive_def
          finalise_Execute)
qed

lemma calculateRevenue_sample: "calculateRevenue activeMockAgreement = 450"
  by code_simp

text \<open>
  Claim C5, amended. On the permissioned ledger \<^verbatim>\<open>execute\<close> fails with \<open>InvalidState\<close>
  when the status is not \<^verbatim>\<open>ACTIVE\<close> or the agreement is expired (at the flow's check or
  at the contract's), leaving the vault as it was. On an \<^verbatim>\<open>ACTIVE\<close>, non-expired
  agreement it succeeds when the clock reading taken for the new version is strictly after
  the previous \<^verbatim>\<open>lastExecutionTime\<close>: the caller gets the transaction, whose new version
  differs from the consumed one in \<^verbatim>\<open>lastExecutionTime\<close> only, which is that reading; no
  revenue is computed. With a reading that is not after the previous one the contract
  rejects the transaction, and \<^verbatim>\<open>verifyExecute\<close> accepts only transactions whose input
  is \<^verbatim>\<open>ACTIVE\<close> and not expired and whose output has a strictly later
  \<^verbatim>\<open>lastExecutionTime\<close>. The mock's \<^verbatim>\<open>executeRoamingAgreement\<close> fails with \<open>NotFound\<close>
  for an unknown id and with \<open>InvalidState\<close> when the stored status is not \<^verbatim>\<open>ACTIVE\<close>,
  which is the case of every agreement the mock creates; it has no notion of expiry. On a
  store that holds an \<^verbatim>\<open>ACTIVE\<close> agreement it sets \<^verbatim>\<open>lastExecutionTime\<close> to the clock
  reading and reports the revenue
  \<open>deviceCount * 100 * averageQuality * (coverageArea / 1000)\<close>, as binary64 computes it,
  in the \<^verbatim>\<open>roamingAgreementExecuted\<close> event; the stored agreement differs from the
  previous one in \<^verbatim>\<open>lastExecutionTime\<close> only.
\<close>

theorem execute_behaviour:
  "(roamingAgreements s agreementId = None \<longrightarrow>
      executeRoamingAgreement now agreementId s
        = (Inl (NotFound ''Roaming agreement not found''), s, []))
   \<and> (\<forall>a. roamingAgreements s agreementId = Some a \<and> mra_status a \<noteq> ACTIVE \<longrightarrow>
      executeRoamingAgreement now agreementId s
        = (Inl (InvalidState ''Agreement is not active''), s, []))
   \<and> (case createRoamingAgreement mockClock numberToString partnerId region terms netData s of
        (newId, s', evs) \<Rightarrow>
          map_option mra_status (roamingAgreements s' newId) = Some PENDING
          \<and> executeRoamingAgreement now newId s'
              = (Inl (InvalidState ''Agreement is not active''), s', []))
   \<and> (\<forall>a. roamingAgreements s agreementId = Some a \<and> mra_status a = ACTIVE \<longrightarrow>
      executeRoamingAgreement now agreementId s
        = (Inr ''mock_corda_tx_execute_agreement_123'',
           s\<lparr>roamingAgreements :=
                (roamingAgreements s)(agreementId \<mapsto> a\<lparr>mra_lastExecutionTime := now\<rparr>)\<rparr>,
           [RoamingAgreementExecuted (a\<lparr>mra_lastExecutionTime := now\<rparr>)
              (binary64 (binary64 (binary64 (mq_deviceCount (mra_networkData a) * 100)
                                     * mq_averageQuality (mra_networkData a))
                           * binary64 (mq_coverageArea (mra_networkData a) / 1000)))]))
   \<and> (\<forall>a. findById vault stateId = Some a \<and> ras_status a \<noteq> ACTIVE \<longrightarrow>
      ExecuteRoamingAgreementFlow clock stateId vault
        = (Inl (InvalidState ''Agreement must be active to execute''), vault))
   \<and> (\<forall>a. findById vault stateId = Some a \<and> isExpired (clock 0) a = Inr True \<longrightarrow>
      ExecuteRoamingAgreementFlow clock stateId vault
        = (Inl (InvalidState ''Agreement must be active to execute''), vault))
   \<and> (\<forall>a. findById vault stateId = Some a \<and> ras_status a = ACTIVE
          \<and> isExpired (clock 0) a = Inr False \<and> isExpired (clock 2) a = Inr True \<longrightarrow>
      ExecuteRoamingAgreementFlow clock stateId vault
        = (Inl (InvalidState ''Agreement must not be expired''), vault))
   \<and> (\<forall>a. findById vault stateId = Some a \<and> ras_status a = ACTIVE
          \<and> isExpired (clock 0) a = Inr False \<and> isExpired (clock 2) a = Inr False
          \<and> isAfter (clock 1) (lastExecutionTime a) \<longrightarrow>
      ExecuteRoamingAgreementFlow clock stateId vault
        = (Inr \<lparr>tx_inputs = [a], tx_outputs = [a\<lparr>lastExecutionTime := clock 1\<rparr>],
                tx_command = Execute\<rparr>,
           remove1 a vault @ [a\<lparr>lastExecutionTime := clock 1\<rparr>]))
   \<and> (\<forall>a. findById vault stateId = Some a \<and> ras_status a = ACTIVE
          \<and> isExpired (clock 0) a = Inr False \<and> isExpired (clock 2) a = Inr False
          \<and> \<not> isAfter (clock 1) (lastExecutionTime a) \<longrightarrow>
      ExecuteRoamingAgreementFlow clock stateId vault
        = (Inl (ContractViolation ''Execution must update last execution time''), vault))
   \<and> (verifyExecute t tx = Inr () \<longrightarrow>
        ras_status (hd (tx_inputs tx)) = ACTIVE
        \<and> isExpired t (hd (tx_inputs tx)) = Inr False
        \<and> isAfter (lastExecutionTime (hd (tx_outputs tx))) (lastExecutionTime (hd (tx_inputs tx))))"
proof (intro conjI allI impI)
  assume "roamingAgreements s agreementId = None"
  then show "executeRoamingAgreement now agreementId s
        = (Inl (NotFound ''Roaming agreement not found''), s, [])"
    by (simp add: executeRoamingAgreement_def)
next
  fix a assume "roamingAgreements s agreementId = Some a \<and> mra_status a \<noteq> ACTIVE"
  then show "executeRoamingAgreement now agreementId s
        = (Inl (InvalidState ''Agreement is not active''), s, [])"
    by (simp add: executeRoamingAgreement_def)
next
  show "case createRoamingAgreement mockClock numberToString partnerId region terms netData s of
        (newId, s', evs) \<Rightarrow>
          map_option mra_status (roamingAgreements s' newId) = Some PENDING
          \<and> executeRoamingAgreement now newId s'
              = (Inl (InvalidState ''Agreement is not active''), s', [])"
    by (simp add: createRoamingAgreement_def executeRoamingAgreement_def Let_def)
next
  fix a assume "roamingAgreements s agreementId = Some a \<and> mra_status a = ACTIVE"
  then show "executeRoamingAgreement now agreementId s
        = (Inr ''mock_corda_tx_execute_agreement_123'',
           s\<lparr>roamingAgreements :=
                (roamingAgreements s)(agreementId \<mapsto> a\<lparr>mra_lastExecutionTime := now\<rparr>)\<rparr>,
           [RoamingAgreementExecuted (a\<lparr>mra_lastExecutionTime := now\<rparr>)
              (binary64 (binary64 (binary64 (mq_deviceCount (mra_networkData a) * 100)
                                     * mq_averageQuality (mra_networkData a))
                           * binary64 (mq_coverageArea (mra_networkData a) / 1000)))])"
    by (simp add: executeRoamingAgreement_def calculateRevenue_def Let_def)
next
  fix a assume "findById vault stateId = Some a \<and> ras_status a \<noteq> ACTIVE"
  then show "ExecuteRoamingAgreementFlow clock stateId vault
        = (Inl (InvalidState ''Agreement must be active to execute''), vault)"
    by (simp add: ExecuteRoamingAgreementFlow_def isActive_def)
next
  fix a assume "findById vault stateId = Some a \<and> isExpired (clock 0) a = Inr True"
  then show "ExecuteRoamingAgreementFlow clock stateId vault
        = (Inl (InvalidState ''Agreement must be active to execute''), vault)"
    by (simp add: ExecuteRoamingAgreementFlow_def isActive_def)
next
  fix a assume "findById vault stateId = Some a \<and> ras_status a = ACTIVE
          \<and> isExpired (clock 0) a = Inr False \<and> isExpired (clock 2) a = Inr True"
  then show "ExecuteRoamingAgreementFlow clock stateId vault
        = (Inl (InvalidState ''Agreement must not be expired''), vault)"
    by (simp add: ExecuteRoamingAgreementFlow_def isActive_def finalise_def verify_def
          verifyExecute_def Let_def)
next
  fix a assume "findById vault stateId = Some a \<and> ras_status a = ACTIVE
          \<and> isExpired (clock 0) a = Inr False \<and> isExpired (clock 2) a = Inr False
          \<and> isAfter (clock 1) (lastExecutionTime a)"
  then show "ExecuteRoamingAgreementFlow clock stateId vault
        = (Inr \<lparr>tx_inputs = [a], tx_outputs = [a\<lparr>lastExecutionTime := clock 1\<rparr>],
                tx_command = Execute\<rparr>,
           remove1 a vault @ [a\<lparr>lastExecutionTime := clock 1\<rparr>])"
    by (simp add: ExecuteRoamingAgreementFlow_def isActive_def finalise_Execute)
next
  fix a assume "findById vault stateId = Some a \<and> ras_status a = ACTIVE
          \<and> isExpired (clock 0) a = Inr False \<and> isExpired (clock 2) a = Inr False
          \<and> \<not> isAfter (clock 1) (lastExecutionTime a)"
  then show "ExecuteRoamingAgreementFlow clock stateId vault
        = (Inl (ContractViolation ''Execution must update last execution time''), vault)"
    by (simp add: ExecuteRoamingAgreementFlow_def isActive_def finalise_Execute)
next
  assume v: "verifyExecute t tx = Inr ()"
  then show "ras_status (hd (tx_inputs tx)) = ACTIVE"
    by (simp add: verifyExecute_def Let_def split: if_splits)
  from v show "isExpired t (hd (tx_inputs tx)) = Inr False"
    by (simp add: verifyExecute_def Let_def split: if_splits sum.splits)
  from v show "isAfter (lastExecutionTime (hd (tx_outputs tx))) (lastExecutionTime (hd (tx_inputs tx)))"
    by (simp add: verifyExecute_def Let_def split: if_splits sum.splits)
qed


theorem execute_behaviour_witness:
  "executeRoamingAgreement 1700000000500 ''agreement_1700000000000'' pendingMockStore
     = (Inl (InvalidState ''Agreement is not active''), pendingMockStore, [])
   \<and> executeRoamingAgreement 5 ''agreement_0'' activeMockStore
     = (Inr ''mock_corda_tx_execute_agreement_123'',
        activeMockStore\<lparr>roamingAgreements :=
          [''agreement_0'' \<mapsto> activeMockAgreement\<lparr>mra_lastExecutionTime := 5\<rparr>]\<rparr>,
        [RoamingAgreementExecuted (activeMockAgreement\<lparr>mra_lastExecutionTime := 5\<rparr>) 450])
   \<and> ExecuteRoamingAgreementFlow (sampleClock 100) ''agreement-1'' activatedVault
     = (Inr \<lparr>tx_inputs = [activatedAgreement],
             tx_outputs = [activatedAgreement\<lparr>lastExecutionTime := sampleClock 100 1\<rparr>],
             tx_command = Execute\<rparr>,
        [activatedAgreement\<lparr>lastExecutionTime := sampleClock 100 1\<rparr>])
   \<and> ExecuteRoamingAgreementFlow (sampleClock 172800) ''agreement-1'' activatedVault
     = (Inl (InvalidState ''Agreement must be active to execute''), activatedVault)
   \<and> ExecuteRoamingAgreementFlow (sampleClock 100) ''agreement-1'' createdVault
     = (Inl (InvalidState ''Agreement must be active to execute''), createdVault)"
proof -
  let ?pending = "\<lparr>mra_id = ''agreement_1700000000000'', mra_partnerId = ''partner-1'',
      mra_region = ''Tokyo'', mra_terms = sampleMockTerms, mra_networkData = sampleMockQuality,
      mra_status = PENDING, mra_creationTime = 1700000000000,
      mra_lastExecutionTime = 1700000000000\<rparr>"
  have m0: "roamingAgreements pendingMockStore ''agreement_1700000000000'' = Some ?pending
            \<and> mra_status ?pending \<noteq> ACTIVE"
    by (simp add: pendingMockStore_def createRoamingAgreement_def emptyMockStore_def Let_def)
  have m1: "roamingAgreements activeMockStore ''agreement_0'' = Some activeMockAgreement
            \<and> mra_status activeMockAgreement = ACTIVE"
    by (simp add: activeMockStore_def activeMockAgreement_def)
  have rev: "binary64 (binary64 (binary64 (mq_deviceCount (mra_networkData activeMockAgreement) * 100)
                                     * mq_averageQuality (mra_networkData activeMockAgreement))
                           * binary64 (mq_coverageArea (mra_networkData activeMockAgreement) / 1000))
             = 450"
    using calculateRevenue_sample by (simp add: calculateRevenue_def Let_def)
  have k1: "findById activatedVault ''agreement-1'' = Some activatedAgreement
            \<and> ras_status activatedAgreement = ACTIVE"
    by (simp add: activatedVault_eq findById_def activatedAgreement_def activeAgreement_def)
  have k2: "isExpired (sampleClock 100 0) activatedAgreement = Inr False"
       "isExpired (sampleClock 100 2) activatedAgreement = Inr False"
    using activeAgreement_not_expired [of 100 0] activeAgreement_not_expired [of 100 2]
    by (simp_all add: activatedAgreement_def isExpired_update_irrelevant)
  have k3: "isAfter (sampleClock 100 1) (lastExecutionTime activatedAgreement)"
    by (simp add: isAfter_def sampleClock_def activatedAgreement_def)
  have k4: "isExpired (sampleClock 172800 0) activatedAgreement = Inr True"
    using activeAgreement_expired_later
    by (simp add: activatedAgreement_def isExpired_update_irrelevant)
  have k5: "findById createdVault ''agreement-1'' = Some (activeAgreement\<lparr>ras_status := PENDING\<rparr>)
            \<and> ras_status (activeAgreement\<lparr>ras_status := PENDING\<rparr>) \<noteq> ACTIVE"
    by (simp add: createdVault_eq findById_def activeAgreement_def)
  note inst1 = execute_behaviour [where s = pendingMockStore
          and agreementId = "''agreement_1700000000000''" and now = 1700000000500
          and vault = activatedVault and stateId = "''agreement-1''" and clock = "sampleClock 100"]
  note inst2 = execute_behaviour [where s = activeMockStore and agreementId = "''agreement_0''"
          and now = 5 and vault = activatedVault and stateId = "''agreement-1''"
          and clock = "sampleClock 172800"]
  note inst3 = execute_behaviour [where s = activeMockStore and agreementId = "''agreement_0''"
          and now = 5 and vault = createdVault and stateId = "''agreement-1''"
          and clock = "sampleClock 100"]
  have a: "executeRoamingAgreement 1700000000500 ''agreement_1700000000000'' pendingMockStore
     = (Inl (InvalidState ''Agreement is not active''), pendingMockStore, [])"
    using inst1 m0 by blast
  have b: "executeRoamingAgreement 5 ''agreement_0'' activeMockStore
     = (Inr ''mock_corda_tx_execute_agreement_123'',
        activeMockStore\<lparr>roamingAgreements :=
          [''agreement_0'' \<mapsto> activeMockAgreement\<lparr>mra_lastExecutionTime := 5\<rparr>]\<rparr>,
        [RoamingAgreementExecuted (activeMockAgreement\<lparr>mra_lastExecutionTime := 5\<rparr>) 450])"
  proof -
    have "executeRoamingAgreement 5 ''agreement_0'' activeMockStore
        = (Inr ''mock_corda_tx_execute_agreement_123'',
           activeMockStore\<lparr>roamingAgreements :=
                (roamingAgreements activeMockStore)(''agreement_0'' \<mapsto>
                   activeMockAgreement\<lparr>mra_lastExecutionTime := 5\<rparr>)\<rparr>,
           [RoamingAgreementExecuted (activeMockAgreement\<lparr>mra_lastExecutionTime := 5\<rparr>)
              (binary64 (binary64 (binary64 (mq_deviceCount (mra_networkData activeMockAgreement) * 100)
                                     * mq_averageQuality (mra_networkData activeMockAgreement))
                           * binary64 (mq_coverageArea (mra_networkData activeMockAgreement) / 1000)))])"
      using inst2 m1 by blast
    then show ?thesis by (simp only: rev) (simp add: activeMockStore_def)
  qed
  have c: "ExecuteRoamingAgreementFlow (sampleClock 100) ''agreement-1'' activatedVault
     = (Inr \<lparr>tx_inputs = [activatedAgreement],
             tx_outputs = [activatedAgreement\<lparr>lastExecutionTime := sampleClock 100 1\<rparr>],
             tx_command = Execute\<rparr>,
        remove1 activatedAgreement activatedVault
          @ [activatedAgreement\<lparr>lastExecutionTime := sampleClock 100 1\<rparr>])"
    using inst1 k1 k2 k3 by blast
  have d: "ExecuteRoamingAgreementFlow (sampleClock 172800) ''agreement-1'' activatedVault
     = (Inl (InvalidState ''Agreement must be active to execute''), activatedVault)"
    using inst2 k1 k4 by blast
  have e: "ExecuteRoamingAgreementFlow (sampleClock 100) ''agreement-1'' createdVault
     = (Inl (InvalidState ''Agreement must be active to execute''), createdVault)"
    using inst3 k5 by blast
  show ?thesis
    using a b c d e by (simp add: activatedVault_eq)
qed

section \<open>Properties of the insights\<close>

lemma foldl_add_sum_list:
  fixes a :: "'b::comm_monoid_add"
  shows "foldl (\<lambda>sum x. sum + f x) a xs = a + sum_list (map f xs)"
  by (induction xs arbitrary: a) (simp_all add: add.assoc)

lemma reduceSum_sum_list: "reduceSum f xs = sum_list (map f xs)"
  by (simp add: reduceSum_def foldl_add_sum_list)

lemma sumByDouble_sum_list: "sumByDouble f xs = sum_list (map f xs)"
  by (simp add: sumByDouble_def foldl_add_sum_list)

lemma sint_sum_list:
  fixes f :: "'a \<Rightarrow> 32 word"
  shows "sint (sum_list (map f xs)) = signed_take_bit 31 (sum_list (map (\<lambda>x. sint (f x)) xs))"
proof (induction xs)
  case Nil
  then show ?case by simp
next
  case (Cons x xs)
  have "sint (f x + sum_list (map f xs))
        = signed_take_bit 31 (sint (f x) + sint (sum_list (map f xs)))"
    by (simp add: sint_word_ariths)
  also have "\<dots> = signed_take_bit 31
        (sint (f x) + signed_take_bit 31 (sum_list (map (\<lambda>x. sint (f x)) xs)))"
    by (simp only: Cons.IH)
  also have "\<dots> = signed_take_bit 31 (sint (f x) + sum_list (map (\<lambda>x. sint (f x)) xs))"
    using signed_take_bit_add [of 31 "sint (f x)" "signed_take_bit 31 (sum_list (map (\<lambda>x. sint (f x)) xs))"]
      signed_take_bit_add [of 31 "sint (f x)" "sum_list (map (\<lambda>x. sint (f x)) xs)"]
    by simp
  finally show ?case by simp
qed

lemma sint_sumBy:
  assumes "- (2 ^ 31) \<le> sum_list (map (\<lambda>x. sint (f x)) xs)"
    and "sum_list (map (\<lambda>x. sint (f x)) xs) < 2 ^ 31"
  shows "sint (sumBy f xs) = sum_list (map (\<lambda>x. sint (f x)) xs)"
  using assms
  by (simp add: sumBy_def foldl_add_sum_list sint_sum_list signed_take_bit_int_eq_self)

text \<open>
  Claim C8, as stated, fails. The mock's \<^verbatim>\<open>getNetworkInsights\<close> reports the mean
  \<^verbatim>\<open>deviceCount\<close> per aggregate: for two aggregates with counts 3 and 2 its
  \<^verbatim>\<open>coverageDensity\<close> is \<open>5 / 2\<close>, not \<open>5 / (\<pi> * 100 + \<pi> * 400)\<close>. The Kotlin
  \<^verbatim>\<open>calculateCoverageDensity\<close> adds the counts as 32-bit \<^verbatim>\<open>Int\<close>s: for two aggregates
  of \<open>2 ^ 30\<close> devices each, with radii 10 and 20, the sum wraps and the density is
  negative.
\<close>

theorem coverageDensity_claim_counterexample:
  "ins_coverageDensity (fst (getNetworkInsights ''Tokyo'' 0 10 insightsStore)) = 5 / 2
   \<and> (5 / 2 :: real) \<noteq> 5 / (pi * 100 + pi * 400)
   \<and> calculateCoverageDensity
        [sampleAggregate 1073741824 10 0.95, sampleAggregate 1073741824 20 0.95]
       = Fin (- 2147483648 / (pi * 100 + pi * 400))"
proof -
  have "(5 :: real) / (pi * 100 + pi * 400) < 5 / 2"
    using pi_ge_two by (simp add: field_simps)
  moreover have "calculateCoverageDensity
        [sampleAggregate 1073741824 10 0.95, sampleAggregate 1073741824 20 0.95]
       = Fin (- 2147483648 / (pi * 100 + pi * 400))"
    by (simp add: calculateCoverageDensity_def sumBy_def sumByDouble_def xdiv_def
          sampleAggregate_def Let_def)
  ultimately show ?thesis
    by (simp add: getNetworkInsights_def insightsStore_def sampleMockAggregate_def
          reduceSum_def Let_def)
qed

text \<open>
  Claim C8, amended. The Kotlin \<^verbatim>\<open>calculateCoverageDensity\<close> returns 0 for the empty
  list; for a non-empty list whose sum of \<^verbatim>\<open>deviceCount\<close> fits a 32-bit \<^verbatim>\<open>Int\<close> and
  whose total area is not zero it returns the sum of \<^verbatim>\<open>deviceCount\<close> divided by the sum
  of \<open>\<pi> * radius\<^sup>2\<close>; for counts 3, 2 and radii 10, 20 that is
  \<open>5 / (\<pi> * 100 + \<pi> * 400)\<close>. The mock's \<^verbatim>\<open>getNetworkInsights\<close> reports as
  \<^verbatim>\<open>coverageDensity\<close> the sum of \<^verbatim>\<open>deviceCount\<close> over the aggregates of the region and
  time window divided by their number, and 0 when there is none.
\<close>

theorem coverageDensity_formula:
  "calculateCoverageDensity [] = Fin 0
   \<and> (data \<noteq> []
        \<and> - (2 ^ 31) \<le> (\<Sum>d\<leftarrow>data. sint (nm_deviceCount (nds_metrics d)))
        \<and> (\<Sum>d\<leftarrow>data. sint (nm_deviceCount (nds_metrics d))) < 2 ^ 31
        \<and> (\<Sum>d\<leftarrow>data. pi * nr_radius (nds_region d) * nr_radius (nds_region d)) \<noteq> 0 \<longrightarrow>
      calculateCoverageDensity data
        = Fin (real_of_int (\<Sum>d\<leftarrow>data. sint (nm_deviceCount (nds_metrics d)))
                / (\<Sum>d\<leftarrow>data. pi * nr_radius (nds_region d) * nr_radius (nds_region d))))
   \<and> ins_coverageDensity (fst (getNetworkInsights region startTime endTime s))
       = (let relevantData =
                filter (\<lambda>d. mnd_region d = region \<and> startTime \<le> mnd_timestamp d
                            \<and> mnd_timestamp d \<le> endTime) (networkData s)
          in if relevantData = [] then 0
             else (\<Sum>d\<leftarrow>relevantData. mm_deviceCount (mnd_metrics d))
                    / real (length relevantData))"
  by (auto simp add: calculateCoverageDensity_def sumByDouble_sum_list sint_sumBy xdiv_def
        getNetworkInsights_def reduceSum_sum_list Let_def simp del: of_int_sint)

theorem coverageDensity_formula_witness:
  "calculateCoverageDensity [sampleAggregate 3 10 0.95, sampleAggregate 2 20 0.95]
     = Fin (5 / (pi * 100 + pi * 400))"
proof -
  let ?data = "[sampleAggregate 3 10 0.95, sampleAggregate 2 20 0.95]"
  have nz: "pi * 100 + pi * 400 \<noteq> 0" using pi_gt_zero by simp
  have "calculateCoverageDensity ?data
          = Fin (real_of_int (\<Sum>d\<leftarrow>?data. sint (nm_deviceCount (nds_metrics d)))
                / (\<Sum>d\<leftarrow>?data. pi * nr_radius (nds_region d) * nr_radius (nds_region d)))"
  proof (rule coverageDensity_formula [THEN conjunct2, THEN conjunct1, THEN mp])
    show "?data \<noteq> []
        \<and> - (2 ^ 31) \<le> (\<Sum>d\<leftarrow>?data. sint (nm_deviceCount (nds_metrics d)))
        \<and> (\<Sum>d\<leftarrow>?data. sint (nm_deviceCount (nds_metrics d))) < 2 ^ 31
        \<and> (\<Sum>d\<leftarrow>?data. pi * nr_radius (nds_region d) * nr_radius (nds_region d)) \<noteq> 0"
      using nz by (simp add: sampleAggregate_def)
  qed
  then show ?thesis by (simp add: sampleAggregate_def)
qed

text \<open>
  Closed binary64 computations are evaluated by rewriting with the definitions of the
  rounding.
\<close>

lemmas b64 = binary64_def ilog2_def roundHalfEven_def pow2_def Let_def compute_bitlen

lemma replicate_10: "replicate 10 x = [x, x, x, x, x, x, x, x, x, x]"
  by (simp add: eval_nat_numeral)

text \<open>
  Claim C9, as stated, fails on the Kotlin \<^verbatim>\<open>generateRecommendations\<close> it cites: that
  function is one first-match \<^verbatim>\<open>when\<close>, it has no partnership and no cost category, and
  it returns exactly one recommendation. A single aggregate with \<^verbatim>\<open>qualityScore\<close> 0.95
  (above 0.9), 3 devices and radius 10 yields only the low-coverage recommendation.
\<close>

theorem kotlin_recommendations_exclusive:
  "generateRecommendations [sampleAggregate 3 10 (binary64 0.95)]
     = [''Expand network coverage in underserved areas'']"
  by (simp add: generateRecommendations_def average_def calculateCoverageDensity64_def
        sumByDouble64_def sumBy_def xdiv64_def Math_PI_def sampleAggregate_def b64)

text \<open>
  The means of the samples, computed in binary64 as the code computes them. The mean of
  three aggregates of availability 0.8 is \<open>0.8000000000000002\<close>, above the threshold.
\<close>

lemma mock_sample_means:
  "mockAvgQuality
     [sampleMockAggregate 3 (binary64 0.8), sampleMockAggregate 2 (binary64 0.8),
      sampleMockAggregate 1 (binary64 0.8)] = 7205759403792795 / 9007199254740992"
  "binary64 0.8 = 3602879701896397 / 4503599627370496"
  "mockAvgQuality
     [sampleMockAggregate 3 (binary64 0.8), sampleMockAggregate 2 (binary64 0.8),
      sampleMockAggregate 1 (binary64 0.8)] > binary64 0.8"
  "mockAvgQuality
     [sampleMockAggregate 3 (binary64 0.95), sampleMockAggregate 2 (binary64 0.95)] > binary64 0.9"
  "mockAvgQuality [sampleMockAggregate 3 (binary64 0.5)] < binary64 0.6"
  by (simp_all add: mockAvgQuality_def reduceSum64_def sampleMockAggregate_def b64)

lemma kotlin_sample_averages:
  "xless (average (map (\<lambda>d. qualityScore (nds_metrics d)) [sampleAggregate 3 10 (binary64 0.5)]))
     (binary64 0.6)"
  "\<not> xless (average (map (\<lambda>d. qualityScore (nds_metrics d))
                [sampleAggregate 3 10 (binary64 0.95)])) (binary64 0.6)"
  "xless (calculateCoverageDensity64 [sampleAggregate 3 10 (binary64 0.95)]) (binary64 0.1)"
  "\<not> xless (average (map (\<lambda>d. qualityScore (nds_metrics d))
                [sampleAggregate 100 10 (binary64 0.95)])) (binary64 0.6)"
  "\<not> xless (calculateCoverageDensity64 [sampleAggregate 100 10 (binary64 0.95)]) (binary64 0.1)"
  "\<not> xless (average (map (\<lambda>d. qualityScore (nds_metrics d))
                (replicate 10 (sampleAggregate 100 10 (binary64 0.95))))) (binary64 0.6)"
  "\<not> xless (calculateCoverageDensity64 (replicate 10 (sampleAggregate 100 10 (binary64 0.95))))
       (binary64 0.1)"
  by (simp_all add: average_def calculateCoverageDensity64_def sumByDouble64_def sumBy_def
        xdiv64_def Math_PI_def sampleAggregate_def replicate_10 b64)

text \<open>
  Claim C9, amended. In the mock's \<^verbatim>\<open>generateRecommendations\<close> the three rules are
  independent. With \<^verbatim>\<open>avgQuality\<close> the mean \<^verbatim>\<open>averageAvailability\<close> of the aggregates as
  the code computes it in binary64 (a left-to-right sum from 0 divided by the count, and 0
  for an empty set), infrastructure-investment suggestions are produced exactly when
  \<^verbatim>\<open>avgQuality < 0.6\<close>, partnership-opportunity suggestions exactly when
  \<^verbatim>\<open>avgQuality > 0.8\<close> and cost-optimization suggestions exactly when
  \<^verbatim>\<open>avgQuality > 0.9\<close>, so a set with \<^verbatim>\<open>avgQuality > 0.9\<close> triggers both of the latter.
  The Kotlin \<^verbatim>\<open>generateRecommendations\<close> is one first-match \<^verbatim>\<open>when\<close> and returns exactly
  one recommendation: low quality when the average \<^verbatim>\<open>qualityScore\<close> is below 0.6;
  otherwise low coverage when the coverage density is below 0.1; otherwise few aggregates
  when there are fewer than 10; otherwise optimal.
\<close>

theorem recommendation_rules:
  "(let avgQuality = mockAvgQuality data; r = mockGenerateRecommendations data
    in (avgQuality < binary64 0.6 \<longrightarrow>
          infrastructureInvestment r
            = [''Invest in network infrastructure upgrades'', ''Deploy additional base stations''])
     \<and> (\<not> avgQuality < binary64 0.6 \<longrightarrow> infrastructureInvestment r = [])
     \<and> (avgQuality > binary64 0.8 \<longrightarrow>
          partnershipOpportunities r
            = [''Offer premium roaming services'', ''Expand into adjacent markets''])
     \<and> (\<not> avgQuality > binary64 0.8 \<longrightarrow> partnershipOpportunities r = [])
     \<and> (avgQuality > binary64 0.9 \<longrightarrow>
          costOptimization r = [''Optimize network resources'', ''Implement automated management'']
          \<and> partnershipOpportunities r
            = [''Offer premium roaming services'', ''Expand into adjacent markets''])
     \<and> (\<not> avgQuality > binary64 0.9 \<longrightarrow> costOptimization r = []))
   \<and> mockAvgQuality [] = 0
   \<and> (data \<noteq> [] \<longrightarrow>
        mockAvgQuality data
          = binary64 (foldl (\<lambda>sum d. binary64 (sum + mm_averageAvailability (mnd_metrics d))) 0 data
                        / real (length data)))
   \<and> (let avgQuality = average (map (\<lambda>d. qualityScore (nds_metrics d)) kdata);
           avgCoverage = calculateCoverageDensity64 kdata;
           r = generateRecommendations kdata
       in (xless avgQuality (binary64 0.6) \<longrightarrow>
             r = [''Consider infrastructure investment in low-quality areas''])
        \<and> (\<not> xless avgQuality (binary64 0.6) \<and> xless avgCoverage (binary64 0.1) \<longrightarrow>
             r = [''Expand network coverage in underserved areas''])
        \<and> (\<not> xless avgQuality (binary64 0.6) \<and> \<not> xless avgCoverage (binary64 0.1)
             \<and> length kdata < 10 \<longrightarrow>
             r = [''Increase data collection frequency''])
        \<and> (\<not> xless avgQuality (binary64 0.6) \<and> \<not> xless avgCoverage (binary64 0.1)
             \<and> \<not> length kdata < 10 \<longrightarrow>
             r = [''Network performance is optimal''])
        \<and> length r = 1)"
proof -
  have gt: "binary64 0.8 < binary64 0.9" by (simp add: b64)
  have m: "(let avgQuality = mockAvgQuality data; r = mockGenerateRecommendations data
    in (avgQuality < binary64 0.6 \<longrightarrow>
          infrastructureInvestment r
            = [''Invest in network infrastructure upgrades'', ''Deploy additional base stations''])
     \<and> (\<not> avgQuality < binary64 0.6 \<longrightarrow> infrastructureInvestment r = [])
     \<and> (avgQuality > binary64 0.8 \<longrightarrow>
          partnershipOpportunities r
            = [''Offer premium roaming services'', ''Expand into adjacent markets''])
     \<and> (\<not> avgQuality > binary64 0.8 \<longrightarrow> partnershipOpportunities r = [])
     \<and> (avgQuality > binary64 0.9 \<longrightarrow>
          costOptimization r = [''Optimize network resources'', ''Implement automated management'']
          \<and> partnershipOpportunities r
            = [''Offer premium roaming services'', ''Expand into adjacent markets''])
     \<and> (\<not> avgQuality > binary64 0.9 \<longrightarrow> costOptimization r = []))"
    using gt by (auto simp add: mockGenerateRecommendations_def Let_def)
  have a: "mockAvgQuality [] = 0
   \<and> (data \<noteq> [] \<longrightarrow>
        mockAvgQuality data
          = binary64 (foldl (\<lambda>sum d. binary64 (sum + mm_averageAvailability (mnd_metrics d))) 0 data
                        / real (length data)))"
    by (simp add: mockAvgQuality_def reduceSum64_def)
  have k: "(let avgQuality = average (map (\<lambda>d. qualityScore (nds_metrics d)) kdata);
           avgCoverage = calculateCoverageDensity64 kdata;
           r = generateRecommendations kdata
       in (xless avgQuality (binary64 0.6) \<longrightarrow>
             r = [''Consider infrastructure investment in low-quality areas''])
        \<and> (\<not> xless avgQuality (binary64 0.6) \<and> xless avgCoverage (binary64 0.1) \<longrightarrow>
             r = [''Expand network coverage in underserved areas''])
        \<and> (\<not> xless avgQuality (binary64 0.6) \<and> \<not> xless avgCoverage (binary64 0.1)
             \<and> length kdata < 10 \<longrightarrow>
             r = [''Increase data collection frequency''])
        \<and> (\<not> xless avgQuality (binary64 0.6) \<and> \<not> xless avgCoverage (binary64 0.1)
             \<and> \<not> length kdata < 10 \<longrightarrow>
             r = [''Network performance is optimal''])
        \<and> length r = 1)"
    by (simp add: generateRecommendations_def Let_def)
  show ?thesis using m a k by blast
qed

theorem recommendation_rules_witness:
  "partnershipOpportunities
       (mockGenerateRecommendations
          [sampleMockAggregate 3 (binary64 0.95), sampleMockAggregate 2 (binary64 0.95)])
     = [''Offer premium roaming services'', ''Expand into adjacent markets'']
   \<and> costOptimization
       (mockGenerateRecommendations
          [sampleMockAggregate 3 (binary64 0.95), sampleMockAggregate 2 (binary64 0.95)])
     = [''Optimize network resources'', ''Implement automated management'']
   \<and> infrastructureInvestment
       (mockGenerateRecommendations
          [sampleMockAggregate 3 (binary64 0.95), sampleMockAggregate 2 (binary64 0.95)]) = []
   \<and> partnershipOpportunities
       (mockGenerateRecommendations
          [sampleMockAggregate 3 (binary64 0.8), sampleMockAggregate 2 (binary64 0.8),
           sampleMockAggregate 1 (binary64 0.8)])
     = [''Offer premium roaming services'', ''Expand into adjacent markets'']
   \<and> infrastructureInvestment (mockGenerateRecommendations [sampleMockAggregate 3 (binary64 0.5)])
     = [''Invest in network infrastructure upgrades'', ''Deploy additional base stations'']
   \<and> generateRecommendations [sampleAggregate 3 10 (binary64 0.5)]
     = [''Consider infrastructure investment in low-quality areas'']
   \<and> generateRecommendations [sampleAggregate 3 10 (binary64 0.95)]
     = [''Expand network coverage in underserved areas'']
   \<and> generateRecommendations [sampleAggregate 100 10 (binary64 0.95)]
     = [''Increase data collection frequency'']
   \<and> generateRecommendations (replicate 10 (sampleAggregate 100 10 (binary64 0.95)))
     = [''Network performance is optimal'']"
proof -
  have lt: "binary64 0.6 < binary64 0.9" by (simp add: b64)
  note m = mock_sample_means(3-5)
  note k = kotlin_sample_averages
  have m95: "\<not> mockAvgQuality
     [sampleMockAggregate 3 (binary64 0.95), sampleMockAggregate 2 (binary64 0.95)] < binary64 0.6"
    using m(2) lt by simp
  show ?thesis
    using recommendation_rules
        [of "[sampleMockAggregate 3 (binary64 0.95), sampleMockAggregate 2 (binary64 0.95)]"
            "[sampleAggregate 3 10 (binary64 0.5)]"]
      recommendation_rules
        [of "[sampleMockAggregate 3 (binary64 0.8), sampleMockAggregate 2 (binary64 0.8),
              sampleMockAggregate 1 (binary64 0.8)]"
            "[sampleAggregate 3 10 (binary64 0.95)]"]
      recommendation_rules
        [of "[sampleMockAggregate 3 (binary64 0.5)]" "[sampleAggregate 100 10 (binary64 0.95)]"]
      recommendation_rules
        [of "[sampleMockAggregate 3 (binary64 0.5)]"
            "replicate 10 (sampleAggregate 100 10 (binary64 0.95))"]
      m m95 k
    by (simp add: Let_def)
qed

end
